theory Spec2Isabelle
  imports Main "HOL-Library.AList"
begin

section \<open>JSON values and the functions of the Node.js runtime\<close>

text \<open>
  The license code handles plain JSON data: request bodies, the payload of a license key,
  the \<open>metadata\<close> of a stored license. An object is an association list, in the
  order of its keys; reading a property that is missing gives \<open>None\<close> (JavaScript's
  \<open>undefined\<close>).
\<close>

datatype json =
    JNull
  | JBool bool
  | JNum int
  | JStr string
  | JArr "json list"
  | JObj "(string \<times> json) list"

text \<open>\<open>v.key\<close> on a value that is not \<open>null\<close>: only an object has the keys read here.\<close>

fun property :: "json \<Rightarrow> string \<Rightarrow> json option" where
  "property (JObj kvs) k = map_of kvs k"
| "property _ k = None"

text \<open>JavaScript truthiness, as used by \<open>x && ...\<close> and \<open>x || ...\<close>.\<close>

fun truthy :: "json \<Rightarrow> bool" where
  "truthy JNull = False"
| "truthy (JBool b) = b"
| "truthy (JNum n) = (n \<noteq> 0)"
| "truthy (JStr s) = (s \<noteq> [])"
| "truthy (JArr _) = True"
| "truthy (JObj _) = True"

text \<open>
  What the code calls and the repository does not define: \<open>crypto.createHmac('sha256',
  key).update(msg).digest('hex')\<close>, \<open>JSON.stringify\<close>, \<open>JSON.parse\<close> (\<open>None\<close> when it
  throws), \<open>new Date(v).getTime()\<close> (\<open>None\<close> for an invalid date), \<open>toISOString\<close> and
  \<open>d.setFullYear(d.getFullYear() + 1)\<close>. Instants are milliseconds since the epoch. Every
  theorem below holds for any such functions.
\<close>

record runtime =
  hmac_sha256_hex :: "string \<Rightarrow> string \<Rightarrow> string"
  JSON_stringify :: "json \<Rightarrow> string"
  JSON_parse :: "string \<Rightarrow> json option"
  Date_getTime :: "json \<Rightarrow> int option"
  toISOString :: "int \<Rightarrow> string"
  plusOneYear :: "int \<Rightarrow> int"

subsection \<open>Base64, as \<open>Buffer\<close> encodes and decodes it\<close>

text \<open>
  \<open>buf.toString('base64')\<close> writes the standard alphabet with \<open>=\<close> padding.
  \<open>Buffer.from(s, 'base64')\<close> is lenient: it reads both the standard and the URL-safe
  alphabet, skips every other character, stops at the first \<open>=\<close> and drops the bits of
  an incomplete last group.
\<close>

definition b64_char :: "nat \<Rightarrow> char" where
  "b64_char n =
     (if n < 26 then char_of (65 + n)
      else if n < 52 then char_of (71 + n)
      else if n < 62 then char_of (n - 4)
      else if n = 62 then CHR ''+'' else CHR ''/'')"

definition unbase64 :: "char \<Rightarrow> nat option" where
  "unbase64 c =
     (let n = (of_char c :: nat) in
      if 65 \<le> n \<and> n \<le> 90 then Some (n - 65)
      else if 97 \<le> n \<and> n \<le> 122 then Some (n - 71)
      else if 48 \<le> n \<and> n \<le> 57 then Some (n + 4)
      else if n = 43 \<or> n = 45 then Some 62
      else if n = 47 \<or> n = 95 then Some 63
      else None)"

fun sextets :: "nat list \<Rightarrow> nat list" where
  "sextets (a # b # c # r) =
     [a div 4, (a mod 4) * 16 + b div 16, (b mod 16) * 4 + c div 64, c mod 64] @ sextets r"
| "sextets [a, b] = [a div 4, (a mod 4) * 16 + b div 16, (b mod 16) * 4]"
| "sextets [a] = [a div 4, (a mod 4) * 16]"
| "sextets [] = []"

fun octets :: "nat list \<Rightarrow> nat list" where
  "octets (a # b # c # d # r) =
     [(a * 4 + b div 16) mod 256, ((b mod 16) * 16 + c div 4) mod 256,
      ((c mod 4) * 64 + d) mod 256] @ octets r"
| "octets [a, b, c] = [(a * 4 + b div 16) mod 256, ((b mod 16) * 16 + c div 4) mod 256]"
| "octets [a, b] = [(a * 4 + b div 16) mod 256]"
| "octets _ = []"

definition base64_encode :: "string \<Rightarrow> string" where
  "base64_encode s =
     map b64_char (sextets (map of_char s)) @ replicate ((3 - length s mod 3) mod 3) (CHR ''='')"

definition base64_decode :: "string \<Rightarrow> string" where
  "base64_decode s =
     map char_of (octets (List.map_filter unbase64 (takeWhile (\<lambda>c. c \<noteq> CHR ''='') s)))"

section \<open>Signing and verifying license keys\<close>

text \<open>
  A verification result is \<open>{ valid: true, data }\<close> or \<open>{ valid: false, reason }\<close>.
\<close>

datatype verification = Valid json | Invalid string

fun valid :: "verification \<Rightarrow> bool" where
  "valid (Valid _) = True"
| "valid (Invalid _) = False"

text \<open>\<open>new Date() > new Date(v)\<close>: a comparison with an invalid date is false.\<close>

definition now_after :: "runtime \<Rightarrow> int \<Rightarrow> json \<Rightarrow> bool" where
  "now_after L now v = (case Date_getTime L v of None \<Rightarrow> False | Some t \<Rightarrow> now > t)"

subsection \<open>The license generator utility (\<open>licenseUtils\<close> of the server has the same code)\<close>

text \<open>
  \<open>generateLicenseKey(data)\<close>: \<open>{ ...data, createdAt, uid }\<close> is signed and wrapped. The clock
  (\<open>now\<close>) and the eight random bytes in hex (\<open>uid\<close>) are inputs of the model, and so is the
  secret, which the code reads from the environment.
\<close>

definition generateLicenseKey ::
  "runtime \<Rightarrow> string \<Rightarrow> int \<Rightarrow> string \<Rightarrow> (string \<times> json) list \<Rightarrow> string \<times> json" where
  "generateLicenseKey L secret now uid data =
     (let licenseData = JObj (AList.update ''uid'' (JStr uid)
                         (AList.update ''createdAt'' (JStr (toISOString L now)) data));
          dataStr = JSON_stringify L licenseData;
          signature = hmac_sha256_hex L secret dataStr;
          licenseKey = base64_encode
            (JSON_stringify L (JObj [(''data'', licenseData), (''sig'', JStr signature)]))
      in (licenseKey, licenseData))"

text \<open>
  \<open>verifyLicenseKey(licenseKey)\<close>. Every exception inside the \<open>try\<close> gives
  \<open>Invalid license format\<close>: a key that is not a string, text that does not parse,
  destructuring \<open>null\<close>, \<open>update(undefined)\<close> when the envelope has no \<open>data\<close>, and reading
  a property of \<open>data\<close> when it is \<open>null\<close>.
\<close>

definition verifyLicenseKey ::
  "runtime \<Rightarrow> string \<Rightarrow> int \<Rightarrow> string option \<Rightarrow> verification" where
  "verifyLicenseKey L secret now licenseKey =
     (case licenseKey of
        None \<Rightarrow> Invalid ''Invalid license format''
      | Some k \<Rightarrow>
          (case JSON_parse L (base64_decode k) of
             None \<Rightarrow> Invalid ''Invalid license format''
           | Some JNull \<Rightarrow> Invalid ''Invalid license format''
           | Some licenseObj \<Rightarrow>
               (case property licenseObj ''data'' of
                  None \<Rightarrow> Invalid ''Invalid license format''
                | Some data \<Rightarrow>
                    if property licenseObj ''sig''
                         \<noteq> Some (JStr (hmac_sha256_hex L secret (JSON_stringify L data)))
                    then Invalid ''Invalid signature''
                    else if data = JNull then Invalid ''Invalid license format''
                    else
                      (case property data ''expiresAt'' of
                         None \<Rightarrow> Valid data
                       | Some e \<Rightarrow>
                           if truthy e \<and> now_after L now e then Invalid ''License expired''
                           else Valid data))))"

subsection \<open>\<open>utils/license-generator\<close>, used by the license and webhook routes\<close>

text \<open>
  \<open>generateLicenseKey(userId, productId, expirationDate = null)\<close>; \<open>uniqueId\<close> is the result of
  \<open>uuidv4()\<close>.
\<close>

definition lg_generateLicenseKey ::
  "runtime \<Rightarrow> string \<Rightarrow> int \<Rightarrow> string \<Rightarrow> json \<Rightarrow> json \<Rightarrow> json \<Rightarrow> string \<times> json" where
  "lg_generateLicenseKey L secret now uniqueId userId productId expirationDate =
     (let licenseData = JObj [(''userId'', userId), (''productId'', productId),
                              (''uniqueId'', JStr uniqueId), (''expirationDate'', expirationDate),
                              (''createdAt'', JStr (toISOString L now))];
          dataString = JSON_stringify L licenseData;
          signature = hmac_sha256_hex L secret dataString;
          licenseKey = base64_encode
            (JSON_stringify L (JObj [(''data'', licenseData), (''sig'', JStr signature)]))
      in (licenseKey, licenseData))"

text \<open>
  \<open>verifyLicenseKey(licenseKey)\<close> of this module: the same steps, with the expiry read from
  \<open>data.expirationDate\<close>.
\<close>

definition lg_verifyLicenseKey ::
  "runtime \<Rightarrow> string \<Rightarrow> int \<Rightarrow> string option \<Rightarrow> verification" where
  "lg_verifyLicenseKey L secret now licenseKey =
     (case licenseKey of
        None \<Rightarrow> Invalid ''Invalid license format''
      | Some k \<Rightarrow>
          (case JSON_parse L (base64_decode k) of
             None \<Rightarrow> Invalid ''Invalid license format''
           | Some JNull \<Rightarrow> Invalid ''Invalid license format''
           | Some licenseObject \<Rightarrow>
               (case property licenseObject ''data'' of
                  None \<Rightarrow> Invalid ''Invalid license format''
                | Some data \<Rightarrow>
                    if property licenseObject ''sig''
                         \<noteq> Some (JStr (hmac_sha256_hex L secret (JSON_stringify L data)))
                    then Invalid ''Invalid signature''
                    else if data = JNull then Invalid ''Invalid license format''
                    else
                      (case property data ''expirationDate'' of
                         None \<Rightarrow> Valid data
                       | Some e \<Rightarrow>
                           if truthy e \<and> now_after L now e then Invalid ''License expired''
                           else Valid data))))"

subsection \<open>The two verifiers in one\<close>

text \<open>
  The verifiers differ in the name of the expiry field only; the proofs go through their
  common form. \<open>signed_payload\<close> is the payload of a key whose envelope parses to an object
  with a \<open>data\<close> property and a \<open>sig\<close> equal to the HMAC of \<open>JSON.stringify(data)\<close>: the
  keys that pass the signature check.
\<close>

definition verifyWith ::
  "string \<Rightarrow> runtime \<Rightarrow> string \<Rightarrow> int \<Rightarrow> string option \<Rightarrow> verification" where
  "verifyWith field L secret now licenseKey =
     (case licenseKey of
        None \<Rightarrow> Invalid ''Invalid license format''
      | Some k \<Rightarrow>
          (case JSON_parse L (base64_decode k) of
             None \<Rightarrow> Invalid ''Invalid license format''
           | Some JNull \<Rightarrow> Invalid ''Invalid license format''
           | Some licenseObj \<Rightarrow>
               (case property licenseObj ''data'' of
                  None \<Rightarrow> Invalid ''Invalid license format''
                | Some data \<Rightarrow>
                    if property licenseObj ''sig''
                         \<noteq> Some (JStr (hmac_sha256_hex L secret (JSON_stringify L data)))
                    then Invalid ''Invalid signature''
                    else if data = JNull then Invalid ''Invalid license format''
                    else
                      (case property data field of
                         None \<Rightarrow> Valid data
                       | Some e \<Rightarrow>
                           if truthy e \<and> now_after L now e then Invalid ''License expired''
                           else Valid data))))"

definition signed_payload :: "runtime \<Rightarrow> string \<Rightarrow> string \<Rightarrow> json option" where
  "signed_payload L secret k =
     (case JSON_parse L (base64_decode k) of
        Some (JObj env) \<Rightarrow>
          (case map_of env ''data'' of
             Some data \<Rightarrow>
               if map_of env ''sig'' = Some (JStr (hmac_sha256_hex L secret (JSON_stringify L data)))
               then Some data else None
           | None \<Rightarrow> None)
      | _ \<Rightarrow> None)"

definition expired_at :: "string \<Rightarrow> runtime \<Rightarrow> int \<Rightarrow> json \<Rightarrow> bool" where
  "expired_at field L now data =
     (case property data field of None \<Rightarrow> False | Some e \<Rightarrow> truthy e \<and> now_after L now e)"

section \<open>License documents and the collection\<close>

text \<open>
  The fields every \<open>License\<close> schema of the repository has; \<open>doc_id\<close> is Mongo's \<open>_id\<close>,
  dates are instants, a missing date is \<open>None\<close>. The admin routes are written against
  these fields only.
\<close>

record license_doc =
  doc_id :: string
  licenseKey :: string
  email :: string
  createdAt :: int
  expiresAt :: "int option"
  isActive :: bool

text \<open>\<open>models/license.model.js\<close>: the schema of the license and webhook routes.\<close>

record license = license_doc +
  licenseData :: json
  platform :: string
  saleId :: string
  machineIds :: "string list"
  activations :: int
  maxActivations :: int

text \<open>
  The schema the server file declares inline. Its \<open>activations\<close> is a list of
  sub-documents, named \<open>activations_log\<close> here to tell it from the counter above.
\<close>

record activation =
  timestamp :: int
  machineId :: string
  os :: string
  app :: string
  ip :: string

record server_license = license_doc +
  name :: "string option"
  source :: string
  activations_log :: "activation list"
  metadata :: json

text \<open>
  A collection is the list of its documents. \<open>findOne(query)\<close> is \<open>find\<close>; \<open>doc.save()\<close> on
  the document a query found writes it back in its place; saving a new document appends it,
  unless the unique index on \<open>licenseKey\<close> or a \<open>required\<close> string that is empty makes
  \<open>save\<close> throw (\<open>None\<close>).
\<close>

primrec write_back :: "('a \<Rightarrow> bool) \<Rightarrow> 'a \<Rightarrow> 'a list \<Rightarrow> 'a list" where
  "write_back q d [] = []"
| "write_back q d (x # xs) = (if q x then d # xs else x # write_back q d xs)"

definition save_new ::
  "'a license_doc_scheme \<Rightarrow> 'a license_doc_scheme list \<Rightarrow> 'a license_doc_scheme list option" where
  "save_new d db =
     (if licenseKey d = [] \<or> email d = [] \<or> licenseKey d \<in> set (map licenseKey db) then None
      else Some (db @ [d]))"

text \<open>
  A response: the status, the JSON body, and the license document the body embeds, if any.
\<close>

datatype 'd response = Response nat json "'d option"


fun body :: "'d response \<Rightarrow> json" where
  "body (Response st b d) = b"


definition date_json :: "runtime \<Rightarrow> int option \<Rightarrow> json" where
  "date_json L d = (case d of None \<Rightarrow> JNull | Some t \<Rightarrow> JStr (toISOString L t))"

definition invalid_body :: "string \<Rightarrow> json" where
  "invalid_body reason = JObj [(''valid'', JBool False), (''reason'', JStr reason)]"

definition past :: "int \<Rightarrow> int option \<Rightarrow> bool" where
  "past now d = (case d of None \<Rightarrow> False | Some t \<Rightarrow> now > t)"

section \<open>The license routes (\<open>routes/license.routes.js\<close>)\<close>

text \<open>
  \<open>POST /verify\<close>. \<open>key\<close> and \<open>machine\<close> are \<open>req.body.licenseKey\<close> and
  \<open>req.body.machineId\<close>, \<open>None\<close> when the body has none; an empty \<open>machineId\<close> is falsy.
\<close>

definition route_verify ::
  "runtime \<Rightarrow> string \<Rightarrow> int \<Rightarrow> license list \<Rightarrow> string option \<Rightarrow> string option
     \<Rightarrow> license response \<times> license list" where
  "route_verify L secret now db key machine =
     (case lg_verifyLicenseKey L secret now key of
        Invalid reason \<Rightarrow> (Response 400 (invalid_body reason) None, db)
      | Valid _ \<Rightarrow>
          (case find (\<lambda>l. Some (licenseKey l) = key) db of
             None \<Rightarrow> (Response 400 (invalid_body ''License not found'') None, db)
           | Some license \<Rightarrow>
               if \<not> isActive license
               then (Response 400 (invalid_body ''License is inactive'') None, db)
               else if past now (expiresAt license)
               then (Response 400 (invalid_body ''License has expired'') None, db)
               else
                 (let ok = Response 200 (JObj [(''valid'', JBool True),
                              (''expiryDate'', date_json L (expiresAt license)),
                              (''email'', JStr (email license))]) None
                  in case machine of
                       None \<Rightarrow> (ok, db)
                     | Some m \<Rightarrow>
                         if m \<noteq> [] \<and> m \<notin> set (machineIds license)
                         then
                           if activations license \<ge> maxActivations license
                           then (Response 400 (invalid_body ''Maximum activations reached'') None, db)
                           else (ok, write_back (\<lambda>l. Some (licenseKey l) = key)
                                   (license\<lparr>machineIds := machineIds license @ [m],
                                            activations := activations license + 1\<rparr>) db)
                         else (ok, db))))"

text \<open>\<open>POST /deactivate\<close>, behind the authentication middleware.\<close>

definition route_deactivate ::
  "license list \<Rightarrow> string \<Rightarrow> string option \<Rightarrow> license response \<times> license list" where
  "route_deactivate db key machine =
     (case find (\<lambda>l. licenseKey l = key) db of
        None \<Rightarrow> (Response 404 (JObj [(''message'', JStr ''License not found'')]) None, db)
      | Some license \<Rightarrow>
          (Response 200 (JObj [(''message'', JStr ''Machine deactivated successfully'')]) None,
           write_back (\<lambda>l. licenseKey l = key)
             (license\<lparr>machineIds := filter (\<lambda>id. Some id \<noteq> machine) (machineIds license),
                      activations := max 0 (activations license - 1)\<rparr>) db))"

text \<open>
  A sequence of activations and deactivations of machine ids, for the license with a
  given key: the collection after the requests.
\<close>

datatype ledger_request = Activate string | Deactivate string

definition ledger_step ::
  "runtime \<Rightarrow> string \<Rightarrow> int \<Rightarrow> string \<Rightarrow> license list \<Rightarrow> ledger_request \<Rightarrow> license list" where
  "ledger_step L secret now key db r =
     (case r of
        Activate m \<Rightarrow> snd (route_verify L secret now db (Some key) (Some m))
      | Deactivate m \<Rightarrow> snd (route_deactivate db key (Some m)))"

definition ledger_run ::
  "runtime \<Rightarrow> string \<Rightarrow> int \<Rightarrow> string \<Rightarrow> license list \<Rightarrow> ledger_request list \<Rightarrow> license list" where
  "ledger_run L secret now key db rs = foldl (ledger_step L secret now key) db rs"

section \<open>The server file: verification and admin API\<close>

definition or_unknown :: "string option \<Rightarrow> string" where
  "or_unknown v = (case v of None \<Rightarrow> ''unknown'' | Some s \<Rightarrow> if s = [] then ''unknown'' else s)"

text \<open>\<open>POST /api/license/verify\<close>: every request that passes the checks is recorded.\<close>

definition app_verify ::
  "runtime \<Rightarrow> string \<Rightarrow> int \<Rightarrow> string \<Rightarrow> server_license list
     \<Rightarrow> string option \<Rightarrow> string option \<Rightarrow> string option \<Rightarrow> string option
     \<Rightarrow> server_license response \<times> server_license list" where
  "app_verify L secret now clientIP db key machine os_name app_name =
     (if key = None \<or> key = Some []
      then (Response 400 (invalid_body ''License key is required'') None, db)
      else
        (case verifyLicenseKey L secret now key of
           Invalid reason \<Rightarrow> (Response 403 (invalid_body reason) None, db)
         | Valid _ \<Rightarrow>
             (case find (\<lambda>l. Some (licenseKey l) = key) db of
                None \<Rightarrow> (Response 403 (invalid_body ''License not found'') None, db)
              | Some license \<Rightarrow>
                  if \<not> isActive license
                  then (Response 403 (invalid_body ''License is not active'') None, db)
                  else if past now (expiresAt license)
                  then (Response 403 (invalid_body ''License expired'') None, db)
                  else
                    (let entry = \<lparr>timestamp = now, machineId = or_unknown machine,
                                   os = or_unknown os_name, app = or_unknown app_name,
                                   ip = clientIP\<rparr>
                     in (Response 200
                           (JObj ([(''valid'', JBool True)]
                              @ (case name license of None \<Rightarrow> [] | Some n \<Rightarrow> [(''name'', JStr n)])
                              @ [(''email'', JStr (email license)),
                                 (''expiresAt'', date_json L (expiresAt license))])) None,
                         write_back (\<lambda>l. Some (licenseKey l) = key)
                           (license\<lparr>activations_log := activations_log license @ [entry]\<rparr>)
                           db)))))"

text \<open>
  \<open>PUT /api/admin/licenses/:id/activate\<close> and \<open>.../deactivate\<close> of the server:
  \<open>findByIdAndUpdate(id, { isActive: b }, { new: true })\<close> behind \<open>adminAuthMiddleware\<close>.
\<close>

definition unauthorized :: json where
  "unauthorized = JObj [(''error'', JObj [(''message'', JStr ''Unauthorized''),
                                          (''code'', JStr ''UNAUTHORIZED'')])]"

definition not_found :: json where
  "not_found = JObj [(''error'', JObj [(''message'', JStr ''License not found'')])]"

definition findByIdAndUpdate_isActive ::
  "bool \<Rightarrow> string \<Rightarrow> 'a license_doc_scheme list
     \<Rightarrow> 'a license_doc_scheme option \<times> 'a license_doc_scheme list" where
  "findByIdAndUpdate_isActive b i db =
     (case find (\<lambda>l. doc_id l = i) db of
        None \<Rightarrow> (None, db)
      | Some license \<Rightarrow>
          (Some (license\<lparr>isActive := b\<rparr>),
           write_back (\<lambda>l. doc_id l = i) (license\<lparr>isActive := b\<rparr>) db))"

definition app_admin_set ::
  "bool \<Rightarrow> string \<Rightarrow> string option \<Rightarrow> string \<Rightarrow> 'a license_doc_scheme list
     \<Rightarrow> 'a license_doc_scheme response \<times> 'a license_doc_scheme list" where
  "app_admin_set b ADMIN_SECRET adminSecret i db =
     (if adminSecret \<noteq> Some ADMIN_SECRET then (Response 401 unauthorized None, db)
      else
        (case findByIdAndUpdate_isActive b i db of
           (None, db') \<Rightarrow> (Response 404 not_found None, db')
         | (Some license, db') \<Rightarrow> (Response 200 (JObj []) (Some license), db')))"

definition app_admin_activate where "app_admin_activate = app_admin_set True"

definition app_admin_deactivate where "app_admin_deactivate = app_admin_set False"

section \<open>The admin routes\<close>

text \<open>
  \<open>PUT /licenses/:id/deactivate\<close> and \<open>.../activate\<close>: \<open>findById\<close>, an assignment to
  \<open>license.isActive\<close>, \<open>save\<close>; behind \<open>adminAuth\<close>.
\<close>

definition router_admin_set ::
  "bool \<Rightarrow> string \<Rightarrow> string option \<Rightarrow> string \<Rightarrow> 'a license_doc_scheme list
     \<Rightarrow> 'a license_doc_scheme response \<times> 'a license_doc_scheme list" where
  "router_admin_set b adminSecret providedSecret i db =
     (if providedSecret \<noteq> Some adminSecret
      then (Response 401 (JObj [(''error'', JStr ''Unauthorized'')]) None, db)
      else
        (case find (\<lambda>l. doc_id l = i) db of
           None \<Rightarrow> (Response 404 (JObj [(''error'', JStr ''License not found'')]) None, db)
         | Some license \<Rightarrow>
             (Response 200 (JObj []) (Some (license\<lparr>isActive := b\<rparr>)),
              write_back (\<lambda>l. doc_id l = i) (license\<lparr>isActive := b\<rparr>) db)))"

definition router_admin_deactivate where "router_admin_deactivate = router_admin_set False"

definition router_admin_activate where "router_admin_activate = router_admin_set True"

section \<open>Webhooks\<close>

subsection \<open>The webhook routes: Gumroad, AppSumo and Stripe\<close>

text \<open>
  A new \<open>License\<close> of \<open>models/license.model.js\<close>: the schema's defaults fill
  \<open>machineIds\<close>, \<open>activations\<close> and \<open>maxActivations\<close>; \<open>oid\<close> is the fresh \<open>_id\<close>.
  \<open>saleId\<close> is required as well.
\<close>

definition new_license ::
  "string \<Rightarrow> int \<Rightarrow> string \<Rightarrow> json \<Rightarrow> string \<Rightarrow> string \<Rightarrow> string \<Rightarrow> int option \<Rightarrow> license" where
  "new_license oid now key data plat sale mail expires =
     \<lparr>doc_id = oid, licenseKey = key, email = mail, createdAt = now, expiresAt = expires,
      isActive = True, licenseData = data, platform = plat, saleId = sale, machineIds = [],
      activations = 0, maxActivations = 3\<rparr>"

definition save_license :: "license \<Rightarrow> license list \<Rightarrow> license list option" where
  "save_license d db = (if saleId d = [] then None else save_new d db)"

definition server_error :: json where
  "server_error = JObj [(''message'', JStr ''Server error'')]"



text \<open>
  \<open>POST /stripe\<close>. \<open>stripe.webhooks.constructEvent\<close> checks the signature and gives the
  event, or throws (\<open>None\<close>). Of a checkout session the handler reads \<open>id\<close>, \<open>mode\<close>,
  \<open>customer_details.email\<close> and the product of the first line item.
\<close>

record checkout_session =
  session_id :: string
  mode :: string
  customer_email :: string
  product :: "string option"

datatype stripe_event =
    CheckoutSessionCompleted checkout_session
  | SubscriptionChanged
  | OtherEvent

definition handleCheckoutCompleted ::
  "runtime \<Rightarrow> string \<Rightarrow> int \<Rightarrow> string \<Rightarrow> string \<Rightarrow> license list \<Rightarrow> checkout_session
     \<Rightarrow> license list option" where
  "handleCheckoutCompleted L secret now uniqueId oid db session =
     (if mode session = ''payment'' then
        (let productId = (case product session of None \<Rightarrow> ''unknown''
                          | Some p \<Rightarrow> if p = [] then ''unknown'' else p);
             expirationDate = plusOneYear L now in
         case lg_generateLicenseKey L secret now uniqueId (JStr (customer_email session))
                (JStr productId) (JStr (toISOString L expirationDate)) of
           (key, data) \<Rightarrow>
             save_license
               (new_license oid now key data ''stripe'' (session_id session)
                  (customer_email session) (Some expirationDate)) db)
      else Some db)"

text \<open>A subscription change updates a user, not a license.\<close>

definition stripe_webhook ::
  "runtime \<Rightarrow> string \<Rightarrow> int \<Rightarrow> string \<Rightarrow> string \<Rightarrow> license list \<Rightarrow> stripe_event option
     \<Rightarrow> license response \<times> license list" where
  "stripe_webhook L secret now uniqueId oid db event =
     (case event of
        None \<Rightarrow> (Response 400 (JStr ''Webhook Error'') None, db)
      | Some (CheckoutSessionCompleted session) \<Rightarrow>
          (case handleCheckoutCompleted L secret now uniqueId oid db session of
             None \<Rightarrow> (Response 500 server_error None, db)
           | Some db' \<Rightarrow> (Response 200 (JObj [(''received'', JBool True)]) None, db'))
      | Some _ \<Rightarrow> (Response 200 (JObj [(''received'', JBool True)]) None, db))"

subsection \<open>The server's Gumroad webhook\<close>


section \<open>A runtime to run the model on\<close>

text \<open>
  Concrete functions for the runtime, used to run the model on examples: JSON text with
  integer numbers, dates in the format \<open>toISOString\<close> writes, and a checksum in place of
  HMAC-SHA256.
\<close>

definition hex_digit :: "nat \<Rightarrow> char" where
  "hex_digit n = ''0123456789abcdef'' ! (n mod 16)"

definition digit_val :: "char \<Rightarrow> nat option" where
  "digit_val c = (let n = (of_char c :: nat) in if 48 \<le> n \<and> n \<le> 57 then Some (n - 48) else None)"

definition hex_val :: "char \<Rightarrow> nat option" where
  "hex_val c =
     (let n = (of_char c :: nat) in
      if 48 \<le> n \<and> n \<le> 57 then Some (n - 48)
      else if 97 \<le> n \<and> n \<le> 102 then Some (n - 87)
      else if 65 \<le> n \<and> n \<le> 70 then Some (n - 55)
      else None)"

function show_nat :: "nat \<Rightarrow> string" where
  "show_nat n = (if n < 10 then [hex_digit n] else show_nat (n div 10) @ [hex_digit (n mod 10)])"
  by pat_completeness auto
termination by (relation "measure id") auto
declare show_nat.simps [simp del]

definition show_int :: "int \<Rightarrow> string" where
  "show_int i = (if i < 0 then CHR ''-'' # show_nat (nat (- i)) else show_nat (nat i))"

definition quote_char :: "char \<Rightarrow> string" where
  "quote_char c =
     (let n = (of_char c :: nat) in
      if n = 34 then [CHR 0x5C, CHR 0x22]
      else if n = 92 then [CHR 0x5C, CHR 0x5C]
      else if n = 8 then [CHR 0x5C, CHR ''b'']
      else if n = 12 then [CHR 0x5C, CHR ''f'']
      else if n = 10 then [CHR 0x5C, CHR ''n'']
      else if n = 13 then [CHR 0x5C, CHR ''r'']
      else if n = 9 then [CHR 0x5C, CHR ''t'']
      else if n < 32 then [CHR 0x5C, CHR ''u'', CHR ''0'', CHR ''0'', hex_digit (n div 16), hex_digit n]
      else [c])"

definition quote :: "string \<Rightarrow> string" where
  "quote s = [CHR 0x22] @ concat (map quote_char s) @ [CHR 0x22]"

fun join :: "string list \<Rightarrow> string" where
  "join [] = []"
| "join [x] = x"
| "join (x # y # r) = x @ '','' @ join (y # r)"

fun stringify :: "json \<Rightarrow> string" where
  "stringify JNull = ''null''"
| "stringify (JBool b) = (if b then ''true'' else ''false'')"
| "stringify (JNum i) = show_int i"
| "stringify (JStr s) = quote s"
| "stringify (JArr vs) = ''['' @ join (map stringify vs) @ '']''"
| "stringify (JObj kvs) = ''{'' @ join (map (\<lambda>(k, v). quote k @ '':'' @ stringify v) kvs) @ ''}''"

definition skip_ws :: "string \<Rightarrow> string" where
  "skip_ws = dropWhile (\<lambda>c. c = CHR '' '' \<or> c = CHR 0x09 \<or> c = CHR 0x0A \<or> c = CHR 0x0D)"

text \<open>The characters of a string literal, after its opening quote.\<close>

fun parse_chars :: "string \<Rightarrow> (string \<times> string) option" where
  "parse_chars [] = None"
| "parse_chars (c # cs) =
     (if c = CHR 0x22 then Some ([], cs)
      else if c = CHR 0x5C then
        (case cs of
           [] \<Rightarrow> None
         | e # r \<Rightarrow>
             if e = CHR ''u'' then
               (case r of
                  a # b # x # y # r' \<Rightarrow>
                    (case (hex_val a, hex_val b, hex_val x, hex_val y) of
                       (Some 0, Some 0, Some h, Some l) \<Rightarrow>
                         map_option (\<lambda>(s, t). (char_of (h * 16 + l) # s, t)) (parse_chars r')
                     | _ \<Rightarrow> None)
                | _ \<Rightarrow> None)
             else
               (case map_of [(CHR 0x22, CHR 0x22), (CHR 0x5C, CHR 0x5C), (CHR ''/'', CHR ''/''),
                             (CHR ''b'', CHR 0x08), (CHR ''f'', CHR 0x0C), (CHR ''n'', CHR 0x0A),
                             (CHR ''r'', CHR 0x0D), (CHR ''t'', CHR 0x09)] e of
                  None \<Rightarrow> None
                | Some ch \<Rightarrow> map_option (\<lambda>(s, t). (ch # s, t)) (parse_chars r)))
      else if (of_char c :: nat) < 32 then None
      else map_option (\<lambda>(s, t). (c # s, t)) (parse_chars cs))"

definition read_nat :: "string \<Rightarrow> nat" where
  "read_nat ds = foldl (\<lambda>n c. 10 * n + (case digit_val c of None \<Rightarrow> 0 | Some d \<Rightarrow> d)) 0 ds"

definition parse_number :: "string \<Rightarrow> (json \<times> string) option" where
  "parse_number s =
     (let neg = (take 1 s = ''-'');
          r = (if neg then drop 1 s else s);
          ds = takeWhile (\<lambda>c. digit_val c \<noteq> None) r;
          t = dropWhile (\<lambda>c. digit_val c \<noteq> None) r
      in if ds = [] \<or> take 1 t = ''.'' \<or> take 1 t = ''e'' \<or> take 1 t = ''E'' then None
         else Some (JNum (if neg then - int (read_nat ds) else int (read_nat ds)), t))"

fun parse_value :: "'f list \<Rightarrow> string \<Rightarrow> (json \<times> string) option"
  and parse_elems :: "'f list \<Rightarrow> string \<Rightarrow> (json list \<times> string) option"
  and parse_members :: "'f list \<Rightarrow> string \<Rightarrow> ((string \<times> json) list \<times> string) option" where
  "parse_value [] s = None"
| "parse_value (f # fuel) s =
     (case skip_ws s of
        [] \<Rightarrow> None
      | c # r \<Rightarrow>
          if c = CHR 0x22 then map_option (\<lambda>(x, t). (JStr x, t)) (parse_chars r)
          else if c = CHR ''{'' then
            (case skip_ws r of
               [] \<Rightarrow> None
             | c' # t \<Rightarrow>
                 if c' = CHR ''}'' then Some (JObj [], t)
                 else map_option (\<lambda>(kvs, t). (JObj kvs, t)) (parse_members fuel r))
          else if c = CHR ''['' then
            (case skip_ws r of
               [] \<Rightarrow> None
             | c' # t \<Rightarrow>
                 if c' = CHR '']'' then Some (JArr [], t)
                 else map_option (\<lambda>(vs, t). (JArr vs, t)) (parse_elems fuel r))
          else if take 4 (c # r) = ''null'' then Some (JNull, drop 3 r)
          else if take 4 (c # r) = ''true'' then Some (JBool True, drop 3 r)
          else if take 5 (c # r) = ''false'' then Some (JBool False, drop 4 r)
          else parse_number (c # r))"
| "parse_elems [] s = None"
| "parse_elems (f # fuel) s =
     (case parse_value fuel s of
        None \<Rightarrow> None
      | Some (v, t) \<Rightarrow>
          (case skip_ws t of
             [] \<Rightarrow> None
           | c # r \<Rightarrow>
               if c = CHR '']'' then Some ([v], r)
               else if c = CHR '','' then map_option (\<lambda>(vs, t). (v # vs, t)) (parse_elems fuel r)
               else None))"
| "parse_members [] s = None"
| "parse_members (f # fuel) s =
     (case skip_ws s of
        [] \<Rightarrow> None
      | q # s' \<Rightarrow>
          if q \<noteq> CHR 0x22 then None
          else
            (case parse_chars s' of
               None \<Rightarrow> None
             | Some (k, t) \<Rightarrow>
                 (case skip_ws t of
                    [] \<Rightarrow> None
                  | c # r \<Rightarrow>
                      if c \<noteq> CHR '':'' then None
                      else
                        (case parse_value fuel r of
                           None \<Rightarrow> None
                         | Some (v, t') \<Rightarrow>
                             (case skip_ws t' of
                                [] \<Rightarrow> None
                              | c' # r' \<Rightarrow>
                                  if c' = CHR ''}'' then Some ([(k, v)], r')
                                  else if c' = CHR '','' then
                                    map_option (\<lambda>(kvs, t). ((k, v) # kvs, t)) (parse_members fuel r')
                                  else None)))))"

definition parse :: "string \<Rightarrow> json option" where
  "parse s =
     (case parse_value (CHR '' '' # s) s of
        None \<Rightarrow> None
      | Some (v, t) \<Rightarrow> if skip_ws t = [] then Some v else None)"

text \<open>Dates: the proleptic Gregorian calendar, and the format \<open>toISOString\<close> writes.\<close>

definition days_from_civil :: "int \<Rightarrow> int \<Rightarrow> int \<Rightarrow> int" where
  "days_from_civil y m d =
     (let y' = (if m \<le> 2 then y - 1 else y);
          era = y' div 400;
          yoe = y' - era * 400;
          doy = (153 * (if m > 2 then m - 3 else m + 9) + 2) div 5 + d - 1;
          doe = yoe * 365 + yoe div 4 - yoe div 100 + doy
      in era * 146097 + doe - 719468)"

definition civil_from_days :: "int \<Rightarrow> int \<times> int \<times> int" where
  "civil_from_days z =
     (let z' = z + 719468;
          era = z' div 146097;
          doe = z' - era * 146097;
          yoe = (doe - doe div 1460 + doe div 36524 - doe div 146096) div 365;
          doy = doe - (365 * yoe + yoe div 4 - yoe div 100);
          mp = (5 * doy + 2) div 153;
          d = doy - (153 * mp + 2) div 5 + 1;
          m = (if mp < 10 then mp + 3 else mp - 9)
      in ((if m \<le> 2 then yoe + era * 400 + 1 else yoe + era * 400), m, d))"

definition dec :: "nat list \<Rightarrow> int \<Rightarrow> string" where
  "dec es n = map (\<lambda>e. hex_digit (nat n div 10 ^ e mod 10)) es"

definition iso_string :: "int \<Rightarrow> string" where
  "iso_string t =
     (case civil_from_days (t div 86400000) of
        (y, m, d) \<Rightarrow>
          (let ms = t mod 86400000 in
           dec [3, 2, 1, 0] y @ ''-'' @ dec [1, 0] m @ ''-'' @ dec [1, 0] d @ ''T'' @ dec [1, 0] (ms div 3600000) @ '':''
             @ dec [1, 0] (ms div 60000 mod 60) @ '':'' @ dec [1, 0] (ms div 1000 mod 60) @ ''.''
             @ dec [2, 1, 0] (ms mod 1000) @ ''Z''))"

definition digits :: "string \<Rightarrow> int option" where
  "digits ds = (if ds \<noteq> [] \<and> list_all (\<lambda>c. digit_val c \<noteq> None) ds then Some (int (read_nat ds)) else None)"

definition parse_iso :: "string \<Rightarrow> int option" where
  "parse_iso s =
     (case (digits (take 4 s), digits (take 2 (drop 5 s)), digits (take 2 (drop 8 s)),
            digits (take 2 (drop 11 s)), digits (take 2 (drop 14 s)), digits (take 2 (drop 17 s)),
            digits (take 3 (drop 20 s))) of
        (Some y, Some m, Some d, Some hh, Some mm, Some ss, Some ms) \<Rightarrow>
          if length s = 24 \<and> map (\<lambda>i. s ! i) [4, 7, 10, 13, 16, 19, 23] = ''--T::.Z''
             \<and> 1 \<le> m \<and> m \<le> 12 \<and> 1 \<le> d \<and> d \<le> 31 \<and> hh < 24 \<and> mm < 60 \<and> ss < 60
          then Some (days_from_civil y m d * 86400000 + hh * 3600000 + mm * 60000 + ss * 1000 + ms)
          else None
      | _ \<Rightarrow> None)"

fun getTime :: "json \<Rightarrow> int option" where
  "getTime (JNum n) = Some n"
| "getTime (JStr s) = parse_iso s"
| "getTime (JBool b) = Some (if b then 1 else 0)"
| "getTime JNull = Some 0"
| "getTime _ = None"

definition add_year :: "int \<Rightarrow> int" where
  "add_year t =
     (case civil_from_days (t div 86400000) of
        (y, m, d) \<Rightarrow> days_from_civil (y + 1) m d * 86400000 + t mod 86400000)"

text \<open>
  In place of HMAC-SHA256: a 32-bit checksum of key and message, in hex. It only serves to
  run examples; the theorems hold for every function in its place.
\<close>

definition checksum :: "string \<Rightarrow> nat" where
  "checksum s = foldl (\<lambda>h c. (h * 31 + of_char c) mod 4294967296) 7 s"

definition mac_hex :: "string \<Rightarrow> string \<Rightarrow> string" where
  "mac_hex key msg =
     map (\<lambda>e. hex_digit (checksum (key @ '':'' @ msg) div 16 ^ e)) [7, 6, 5, 4, 3, 2, 1, 0]"

definition demo :: runtime where
  "demo = \<lparr>hmac_sha256_hex = mac_hex, JSON_stringify = stringify, JSON_parse = parse,
           Date_getTime = getTime, toISOString = iso_string, plusOneYear = add_year\<rparr>"

definition LICENSE_SECRET :: string where
  "LICENSE_SECRET = ''license-secret-key-change-in-production''"

subsection \<open>Example data\<close>

text \<open>
  The key \<open>generateLicenseKey\<close> issues on 2024-01-01 for a payload that expires on
  2025-01-01, under the runtime above.
\<close>

definition demo_payload :: "(string \<times> json) list" where
  "demo_payload = [(''email'', JStr ''adal@example.com''), (''name'', JStr ''Ada?''),
                   (''expiresAt'', JStr ''2025-01-01T00:00:00.000Z'')]"

definition demo_data :: json where
  "demo_data = JObj [(''email'', JStr ''adal@example.com''), (''name'', JStr ''Ada?''),
                     (''expiresAt'', JStr ''2025-01-01T00:00:00.000Z''),
                     (''createdAt'', JStr ''2024-01-01T00:00:00.000Z''),
                     (''uid'', JStr ''0123456789abcdef'')]"

definition demo_key :: string where
  "demo_key = ''eyJkYXRhIjp7ImVtYWlsIjoiYWRhbEBleGFtcGxlLmNvbSIsIm5hbWUiOiJBZGE/IiwiZXhwaXJlc0F0IjoiMjAyNS0wMS0wMVQwMDowMDowMC4wMDBaIiwiY3JlYXRlZEF0IjoiMjAyNC0wMS0wMVQwMDowMDowMC4wMDBaIiwidWlkIjoiMDEyMzQ1Njc4OWFiY2RlZiJ9LCJzaWciOiJiYTYyNmNhNCJ9''"

definition gumroad_data :: json where
  "gumroad_data = JObj [(''userId'', JStr ''adal@example.com''), (''productId'', JStr ''resume-pro''),
                        (''uniqueId'', JStr ''11111111-1111-4111-8111-111111111111''),
                        (''expirationDate'', JStr ''2025-01-01T00:00:00.000Z''),
                        (''createdAt'', JStr ''2024-01-01T00:00:00.000Z'')]"

definition gumroad_key :: string where
  "gumroad_key = ''eyJkYXRhIjp7InVzZXJJZCI6ImFkYWxAZXhhbXBsZS5jb20iLCJwcm9kdWN0SWQiOiJyZXN1bWUtcHJvIiwidW5pcXVlSWQiOiIxMTExMTExMS0xMTExLTQxMTEtODExMS0xMTExMTExMTExMTEiLCJleHBpcmF0aW9uRGF0ZSI6IjIwMjUtMDEtMDFUMDA6MDA6MDAuMDAwWiIsImNyZWF0ZWRBdCI6IjIwMjQtMDEtMDFUMDA6MDA6MDAuMDAwWiJ9LCJzaWciOiI5MzdjZTJjNyJ9''"

definition server_doc :: server_license where
  "server_doc = \<lparr>doc_id = ''65a1f0c2e4b0a1b2c3d4e5f6'', licenseKey = demo_key,
                  email = ''adal@example.com'', createdAt = 1704067200000,
                  expiresAt = Some 1735689600000, isActive = True, name = Some ''Ada?'',
                  source = ''manual'', activations_log = [], metadata = JObj []\<rparr>"

definition gumroad_doc :: license where
  "gumroad_doc = new_license ''65a1f0c2e4b0a1b2c3d4e5f7'' 1704067200000 gumroad_key gumroad_data
                   ''gumroad'' ''abc123'' ''adal@example.com'' (Some 1735689600000)"








definition logged :: "string \<Rightarrow> activation" where
  "logged m = \<lparr>timestamp = 1717200000000, machineId = m, os = ''unknown'', app = ''unknown'',
               ip = ''203.0.113.7''\<rparr>"


section \<open>Base64\<close>

lemma char_of_nat_bits:
  "char_of (n::nat) = Char (odd n) (odd (n div 2)) (odd (n div 4)) (odd (n div 8))
      (odd (n div 16)) (odd (n div 32)) (odd (n div 64)) (odd (n div 128))"
  by (simp add: char_of_def bit_iff_odd_drop_bit drop_bit_eq_div)

lemma unbase64_b64_char: "n < 64 \<Longrightarrow> unbase64 (b64_char n) = Some n"
  by (auto simp: unbase64_def b64_char_def Let_def)

lemma b64_char_not_pad: "n < 64 \<Longrightarrow> b64_char n \<noteq> CHR ''=''"
proof
  assume n: "n < 64" and eq: "b64_char n = CHR ''=''"
  from eq have "unbase64 (b64_char n) = unbase64 (CHR ''='')" by simp
  with n show False by (simp add: unbase64_b64_char) (simp add: unbase64_def)
qed

lemma sextets_lt: "\<forall>x\<in>set xs. x < 256 \<Longrightarrow> \<forall>y\<in>set (sextets xs). y < 64"
  by (induction xs rule: sextets.induct) auto

lemma div_add_small: "x < k \<Longrightarrow> (r * k + x) div k = (r::nat)" by simp

lemma mod_add_small: "x < k \<Longrightarrow> (r * k + x) mod k = (x::nat)" by simp

lemma regroup1:
  assumes "a < 256" "b < 256"
  shows "(a div 4 * 4 + (a mod 4 * 16 + b div 16) div 16) mod 256 = (a::nat)"
proof -
  from assms have "b div 16 < 16" by simp
  then have "(a mod 4 * 16 + b div 16) div 16 = a mod 4" by (rule div_add_small)
  with assms show ?thesis by simp
qed

lemma regroup2:
  assumes "b < 256" "c < 256"
  shows "((a mod 4 * 16 + b div 16) mod 16 * 16 + (b mod 16 * 4 + c div 64) div 4) mod 256 = (b::nat)"
proof -
  from assms have "b div 16 < 16" "c div 64 < 4" by simp_all
  then have "(a mod 4 * 16 + b div 16) mod 16 = b div 16"
    "(b mod 16 * 4 + c div 64) div 4 = b mod 16"
    by (simp_all only: mod_add_small div_add_small)
  with assms show ?thesis by simp
qed

lemma regroup3:
  assumes "c < 256"
  shows "((b mod 16 * 4 + c div 64) mod 4 * 64 + c mod 64) mod 256 = (c::nat)"
proof -
  from assms have "c div 64 < 4" by simp
  then have "(b mod 16 * 4 + c div 64) mod 4 = c div 64" by (rule mod_add_small)
  with assms show ?thesis by simp
qed

lemma regroup2': "b < 256 \<Longrightarrow> ((a mod 4 * 16 + b div 16) mod 16 * 16 + (b mod 16 * 4) div 4) mod 256 = (b::nat)"
  using regroup2 [of b 0 a] by simp

lemma regroup1': "a < 256 \<Longrightarrow> (a div 4 * 4 + (a mod 4 * 16) div 16) mod 256 = (a::nat)"
  using regroup1 [of a 0] by simp

lemma octets_sextets: "\<forall>x\<in>set xs. x < 256 \<Longrightarrow> octets (sextets xs) = xs"
proof (induction xs rule: sextets.induct)
  case (1 a b c r)
  then have lt: "a < 256" "b < 256" "c < 256" and r: "octets (sextets r) = r" by simp_all
  show ?case
    by (simp only: sextets.simps octets.simps append.simps regroup1 [OF lt(1,2)]
          regroup2 [OF lt(2,3)] regroup3 [OF lt(3)] r)
next
  case (2 a b)
  then have lt: "a < 256" "b < 256" by simp_all
  show ?case
    by (simp only: sextets.simps octets.simps regroup1 [OF lt] regroup2' [OF lt(2)])
next
  case (3 a)
  then have lt: "a < 256" by simp
  show ?case by (simp only: sextets.simps octets.simps regroup1' [OF lt])
next
  case 4
  show ?case by simp
qed

lemma map_filter_unbase64_b64:
  "\<forall>y\<in>set ys. y < 64 \<Longrightarrow> List.map_filter unbase64 (map b64_char ys) = ys"
  by (induction ys) (simp_all add: List.map_filter_simps unbase64_b64_char)

lemma takeWhile_b64_pad:
  "\<forall>y\<in>set ys. y < 64 \<Longrightarrow>
   takeWhile (\<lambda>c. c \<noteq> CHR ''='') (map b64_char ys @ replicate k (CHR ''='')) = map b64_char ys"
  by (induction ys) (auto simp: b64_char_not_pad takeWhile_replicate)

lemma base64_decode_encode: "base64_decode (base64_encode s) = s"
proof -
  have b: "\<forall>x\<in>set (map of_char s :: nat list). x < 256" by simp
  then have lt: "\<forall>y\<in>set (sextets (map of_char s)). y < 64" by (rule sextets_lt)
  show ?thesis
    unfolding base64_decode_def base64_encode_def
    by (simp only: takeWhile_b64_pad [OF lt] map_filter_unbase64_b64 [OF lt]
          octets_sextets [OF b]) (simp add: comp_def)
qed



section \<open>The verifier\<close>

lemma verifyLicenseKey_with: "verifyLicenseKey = verifyWith ''expiresAt''"
  by (intro ext) (simp add: verifyLicenseKey_def verifyWith_def)

lemma lg_verifyLicenseKey_with: "lg_verifyLicenseKey = verifyWith ''expirationDate''"
  by (intro ext) (simp add: lg_verifyLicenseKey_def verifyWith_def)

lemma verifyWith_signed:
  "signed_payload L secret k = Some data \<Longrightarrow>
   verifyWith field L secret now (Some k) =
     (if data = JNull then Invalid ''Invalid license format''
      else if expired_at field L now data then Invalid ''License expired''
      else Valid data)"
  by (auto simp: verifyWith_def signed_payload_def expired_at_def
      split: option.splits json.splits if_splits)


lemma generate_signed:
  assumes "generateLicenseKey L secret created uid P = (k, d)"
    and "JSON_parse L (JSON_stringify L (JObj [(''data'', d),
            (''sig'', JStr (hmac_sha256_hex L secret (JSON_stringify L d)))]))
         = Some (JObj [(''data'', d),
            (''sig'', JStr (hmac_sha256_hex L secret (JSON_stringify L d)))])"
  shows "signed_payload L secret k = Some d"
  using assms
  by (auto simp: generateLicenseKey_def signed_payload_def Let_def base64_decode_encode)

lemma generate_fields:
  assumes "generateLicenseKey L secret created uid P = (k, d)"
  shows "d = JObj (AList.update ''uid'' (JStr uid)
                    (AList.update ''createdAt'' (JStr (toISOString L created)) P))"
  using assms by (auto simp: generateLicenseKey_def Let_def)

section \<open>The collection\<close>

lemma write_back_none: "find q db = None \<Longrightarrow> write_back q d db = db"
  by (induction db) (auto split: if_splits)

lemma write_back_same: "find q db = Some x \<Longrightarrow> write_back q x db = db"
  by (induction db) (auto split: if_splits)

lemma write_back_twice: "q d \<Longrightarrow> write_back q d' (write_back q d db) = write_back q d' db"
  by (induction db) auto

lemma find_write_back: "find q db = Some x \<Longrightarrow> q d \<Longrightarrow> find q (write_back q d db) = Some d"
  by (induction db) (auto split: if_splits)

lemma map_write_back:
  "find q db = Some x \<Longrightarrow> f d = f x \<Longrightarrow> map f (write_back q d db) = map f db"
  by (induction db) (auto split: if_splits)

lemma length_write_back: "length (write_back q d db) = length db"
  by (induction db) auto

lemma find_doc_id: "find (\<lambda>l. doc_id l = i) db = Some l \<Longrightarrow> doc_id l = i"
  by (induction db) (auto split: if_splits)

lemma find_in_set: "find q db = Some x \<Longrightarrow> x \<in> set db"
  by (induction db) (auto split: if_splits)

lemma set_write_back: "set (write_back q d db) \<subseteq> insert d (set db)"
  by (induction db) auto



section \<open>The examples, evaluated\<close>

declare stringify.simps [simp del]

lemmas json_eval = stringify.simps parse_def skip_ws_def parse_number_def read_nat_def digit_val_def hex_val_def
  quote_def quote_char_def show_int_def hex_digit_def Let_def char_of_nat_bits

lemmas date_eval = iso_string_def civil_from_days_def days_from_civil_def dec_def
  hex_digit_def parse_iso_def digits_def read_nat_def digit_val_def add_year_def Let_def

lemmas b64_eval = base64_encode_def base64_decode_def b64_char_def unbase64_def
  List.map_filter_simps char_of_nat_bits Let_def

lemmas mac_eval = mac_hex_def checksum_def LICENSE_SECRET_def hex_digit_def


lemma iso_2024: "iso_string 1704067200000 = ''2024-01-01T00:00:00.000Z''"
  by (simp add: date_eval cong: let_weak_cong)

lemma iso_2025: "iso_string 1735689600000 = ''2025-01-01T00:00:00.000Z''"
  by (simp add: date_eval cong: let_weak_cong)


lemma time_2025: "parse_iso ''2025-01-01T00:00:00.000Z'' = Some 1735689600000"
  by (simp add: date_eval cong: let_weak_cong)

lemma demo_stringify:
  "stringify demo_data = ''{\"email\":\"adal@example.com\",\"name\":\"Ada?\",\"expiresAt\":\"2025-01-01T00:00:00.000Z\",\"createdAt\":\"2024-01-01T00:00:00.000Z\",\"uid\":\"0123456789abcdef\"}''"
  by (simp add: demo_data_def json_eval cong: let_weak_cong)

lemma demo_mac: "mac_hex LICENSE_SECRET (stringify demo_data) = ''ba626ca4''"
  by (simp add: demo_stringify) (simp add: mac_eval)

lemma demo_generate:
  "generateLicenseKey demo LICENSE_SECRET 1704067200000 ''0123456789abcdef'' demo_payload
     = (demo_key, demo_data)"
proof -
  have d: "JObj (AList.update ''uid'' (JStr ''0123456789abcdef'')
             (AList.update ''createdAt'' (JStr (iso_string 1704067200000)) demo_payload)) = demo_data"
    by (simp add: demo_payload_def demo_data_def iso_2024)
  have e1: "stringify (JObj [(''data'', demo_data), (''sig'', JStr ''ba626ca4'')]) = ''{\"data\":{\"email\":\"adal@example.com\",\"name\":\"Ada?\",\"expiresAt\":\"2025-01-01T00:00:00.000Z\",\"createdAt\":\"2024-01-01T00:00:00.000Z\",\"uid\":\"0123456789abcdef\"},\"sig\":\"ba626ca4\"}''"
    by (simp add: json_eval demo_stringify)
  have e: "base64_encode (stringify (JObj [(''data'', demo_data), (''sig'', JStr ''ba626ca4'')])) = demo_key"
    unfolding e1 by (simp add: b64_eval demo_key_def)
  show ?thesis
    by (simp add: generateLicenseKey_def demo_def d demo_mac e cong: let_weak_cong)
qed

lemma demo_decode:
  "parse (base64_decode demo_key) = Some (JObj [(''data'', demo_data), (''sig'', JStr ''ba626ca4'')])"
proof -
  have "base64_decode demo_key = ''{\"data\":{\"email\":\"adal@example.com\",\"name\":\"Ada?\",\"expiresAt\":\"2025-01-01T00:00:00.000Z\",\"createdAt\":\"2024-01-01T00:00:00.000Z\",\"uid\":\"0123456789abcdef\"},\"sig\":\"ba626ca4\"}''"
    by (simp add: demo_key_def b64_eval)
  then show ?thesis by (simp add: json_eval demo_data_def)
qed

lemma demo_signed: "signed_payload demo LICENSE_SECRET demo_key = Some demo_data"
  by (simp add: signed_payload_def demo_def demo_decode demo_mac)

lemma demo_verify:
  assumes "now \<le> 1735689600000"
  shows "verifyLicenseKey demo LICENSE_SECRET now (Some demo_key) = Valid demo_data"
proof -
  have "\<not> expired_at ''expiresAt'' demo now demo_data"
    using assms by (simp add: expired_at_def now_after_def demo_def demo_data_def time_2025)
  moreover have "demo_data \<noteq> JNull" by (simp add: demo_data_def)
  ultimately show ?thesis
    by (simp add: verifyLicenseKey_with verifyWith_signed [OF demo_signed])
qed

lemma demo_key_nonempty: "demo_key \<noteq> []"
  by (simp add: demo_key_def)





lemma gumroad_stringify:
  "stringify gumroad_data = ''{\"userId\":\"adal@example.com\",\"productId\":\"resume-pro\",\"uniqueId\":\"11111111-1111-4111-8111-111111111111\",\"expirationDate\":\"2025-01-01T00:00:00.000Z\",\"createdAt\":\"2024-01-01T00:00:00.000Z\"}''"
  by (simp add: gumroad_data_def json_eval cong: let_weak_cong)

lemma gumroad_mac: "mac_hex LICENSE_SECRET (stringify gumroad_data) = ''937ce2c7''"
  by (simp add: gumroad_stringify) (simp add: mac_eval)


lemma gumroad_decode:
  "parse (base64_decode gumroad_key) = Some (JObj [(''data'', gumroad_data), (''sig'', JStr ''937ce2c7'')])"
proof -
  have "base64_decode gumroad_key = ''{\"data\":{\"userId\":\"adal@example.com\",\"productId\":\"resume-pro\",\"uniqueId\":\"11111111-1111-4111-8111-111111111111\",\"expirationDate\":\"2025-01-01T00:00:00.000Z\",\"createdAt\":\"2024-01-01T00:00:00.000Z\"},\"sig\":\"937ce2c7\"}''"
    by (simp add: gumroad_key_def b64_eval)
  then show ?thesis by (simp add: json_eval gumroad_data_def)
qed

lemma gumroad_signed: "signed_payload demo LICENSE_SECRET gumroad_key = Some gumroad_data"
  by (simp add: signed_payload_def demo_def gumroad_decode gumroad_mac)

lemma gumroad_verify:
  assumes "now \<le> 1735689600000"
  shows "lg_verifyLicenseKey demo LICENSE_SECRET now (Some gumroad_key) = Valid gumroad_data"
proof -
  have "\<not> expired_at ''expirationDate'' demo now gumroad_data"
    using assms by (simp add: expired_at_def now_after_def demo_def gumroad_data_def time_2025)
  moreover have "gumroad_data \<noteq> JNull" by (simp add: gumroad_data_def)
  ultimately show ?thesis
    by (simp add: lg_verifyLicenseKey_with verifyWith_signed [OF gumroad_signed])
qed

lemma gumroad_doc_fields:
  "licenseKey gumroad_doc = gumroad_key" "isActive gumroad_doc"
  "expiresAt gumroad_doc = Some 1735689600000" "machineIds gumroad_doc = []"
  "activations gumroad_doc = 0" "maxActivations gumroad_doc = 3"
  "email gumroad_doc = ''adal@example.com''"
  by (simp_all add: gumroad_doc_def new_license_def)

lemma gumroad_doc_fresh: "gumroad_doc\<lparr>machineIds := [], activations := 0\<rparr> = gumroad_doc"
  by (simp add: gumroad_doc_def new_license_def)

lemma gumroad_found: "find (\<lambda>l. Some (licenseKey l) = Some gumroad_key) [gumroad_doc\<lparr>machineIds := ms, activations := n\<rparr>]
    = Some (gumroad_doc\<lparr>machineIds := ms, activations := n\<rparr>)"
  by (simp add: gumroad_doc_fields)


lemma server_doc_fields:
  "licenseKey server_doc = demo_key" "isActive server_doc"
  "expiresAt server_doc = Some 1735689600000" "activations_log server_doc = []"
  "email server_doc = ''adal@example.com''" "name server_doc = Some ''Ada?''"
  by (simp_all add: server_doc_def)

lemma server_doc_log: "server_doc\<lparr>activations_log := []\<rparr> = server_doc"
  by (simp add: server_doc_def)

lemma server_found: "find (\<lambda>l. Some (licenseKey l) = Some demo_key) [server_doc\<lparr>activations_log := es\<rparr>]
    = Some (server_doc\<lparr>activations_log := es\<rparr>)"
  by (simp add: server_doc_fields)

lemma not_past_2024: "\<not> past 1717200000000 (Some 1735689600000)"
  by (simp add: past_def)











section \<open>Signed keys: expiry, round trip, tampering\<close>

text \<open>
  C6. A key that passes the signature check and whose payload carries an expiry (a truthy
  value that is a valid date, under \<open>expiresAt\<close> for the license generator utility and
  under \<open>expirationDate\<close> for \<open>utils/license-generator\<close>) is rejected as expired at every
  time after that instant and accepted at every time up to it.
\<close>

theorem expiry_boundary:
  assumes "signed_payload L secret k = Some data" and "truthy e" and "Date_getTime L e = Some t"
  shows "(property data ''expiresAt'' = Some e \<longrightarrow>
            (t < now \<longrightarrow> verifyLicenseKey L secret now (Some k) = Invalid ''License expired'') \<and>
            (now \<le> t \<longrightarrow> verifyLicenseKey L secret now (Some k) = Valid data)) \<and>
         (property data ''expirationDate'' = Some e \<longrightarrow>
            (t < now \<longrightarrow> lg_verifyLicenseKey L secret now (Some k) = Invalid ''License expired'') \<and>
            (now \<le> t \<longrightarrow> lg_verifyLicenseKey L secret now (Some k) = Valid data))"
proof -
  have "property data field = Some e \<Longrightarrow>
        verifyWith field L secret now (Some k) =
          (if t < now then Invalid ''License expired'' else Valid data)" for field
    using assms by (auto simp: verifyWith_signed expired_at_def now_after_def)
  then show ?thesis
    by (simp add: verifyLicenseKey_with lg_verifyLicenseKey_with)
qed

theorem expiry_boundary_witness:
  "verifyLicenseKey demo LICENSE_SECRET 1735689601000 (Some demo_key) = Invalid ''License expired'' \<and>
   verifyLicenseKey demo LICENSE_SECRET 1735689599000 (Some demo_key) = Valid demo_data \<and>
   lg_verifyLicenseKey demo LICENSE_SECRET 1735689601000 (Some gumroad_key) = Invalid ''License expired'' \<and>
   lg_verifyLicenseKey demo LICENSE_SECRET 1735689599000 (Some gumroad_key) = Valid gumroad_data"
proof -
  have t: "Date_getTime demo (JStr ''2025-01-01T00:00:00.000Z'') = Some 1735689600000"
    by (simp add: demo_def time_2025)
  have e: "truthy (JStr ''2025-01-01T00:00:00.000Z'')" by simp
  have p1: "property demo_data ''expiresAt'' = Some (JStr ''2025-01-01T00:00:00.000Z'')"
    by (simp add: demo_data_def)
  have p2: "property gumroad_data ''expirationDate'' = Some (JStr ''2025-01-01T00:00:00.000Z'')"
    by (simp add: gumroad_data_def)
  show ?thesis
    using expiry_boundary [OF demo_signed e t, of 1735689601000]
      expiry_boundary [OF demo_signed e t, of 1735689599000]
      expiry_boundary [OF gumroad_signed e t, of 1735689601000]
      expiry_boundary [OF gumroad_signed e t, of 1735689599000]
    by (simp add: p1 p2)
qed

text \<open>
  C5 (as amended). For a payload whose \<open>expiresAt\<close> is not in the past at the time of
  verification, and whose envelope \<open>JSON.parse\<close> reads back as \<open>JSON.stringify\<close> wrote it,
  verifying the issued key succeeds and returns the payload with \<open>createdAt\<close> and \<open>uid\<close>
  set by issuance and every other field as it was.
\<close>

theorem issue_then_verify:
  assumes "generateLicenseKey L secret created uid P = (k, d)"
    and "JSON_parse L (JSON_stringify L (JObj [(''data'', d),
            (''sig'', JStr (hmac_sha256_hex L secret (JSON_stringify L d)))]))
         = Some (JObj [(''data'', d),
            (''sig'', JStr (hmac_sha256_hex L secret (JSON_stringify L d)))])"
    and "\<not> expired_at ''expiresAt'' L now (JObj P)"
  shows "verifyLicenseKey L secret now (Some k) = Valid d \<and>
         property d ''createdAt'' = Some (JStr (toISOString L created)) \<and>
         property d ''uid'' = Some (JStr uid) \<and>
         (\<forall>f. f \<noteq> ''createdAt'' \<and> f \<noteq> ''uid'' \<longrightarrow> property d f = map_of P f)"
proof -
  note d = generate_fields [OF assms(1)]
  have fields: "property d f = ((map_of P)(''createdAt'' \<mapsto> JStr (toISOString L created),
                                           ''uid'' \<mapsto> JStr uid)) f" for f
    by (simp add: d update_conv')
  have "property d ''expiresAt'' = map_of P ''expiresAt''"
    by (simp add: fields)
  with assms(3) have live: "\<not> expired_at ''expiresAt'' L now d"
    by (simp add: expired_at_def)
  have "d \<noteq> JNull" by (simp add: d)
  with live have "verifyLicenseKey L secret now (Some k) = Valid d"
    by (simp add: verifyLicenseKey_with verifyWith_signed [OF generate_signed [OF assms(1,2)]])
  then show ?thesis by (simp add: fields)
qed

theorem expired_payload_is_rejected:
  "generateLicenseKey demo LICENSE_SECRET 1704067200000 ''0123456789abcdef'' demo_payload
     = (demo_key, demo_data) \<and>
   verifyLicenseKey demo LICENSE_SECRET 1735689601000 (Some demo_key) = Invalid ''License expired''"
proof -
  have "expired_at ''expiresAt'' demo 1735689601000 demo_data"
    by (simp add: expired_at_def now_after_def demo_def demo_data_def time_2025)
  moreover have "demo_data \<noteq> JNull" by (simp add: demo_data_def)
  ultimately show ?thesis
    by (simp add: demo_generate verifyLicenseKey_with verifyWith_signed [OF demo_signed])
qed

theorem issue_then_verify_witness:
  "verifyLicenseKey demo LICENSE_SECRET 1717200000000 (Some demo_key) = Valid demo_data \<and>
   property demo_data ''createdAt'' = Some (JStr ''2024-01-01T00:00:00.000Z'') \<and>
   property demo_data ''uid'' = Some (JStr ''0123456789abcdef'') \<and>
   property demo_data ''email'' = Some (JStr ''adal@example.com'') \<and>
   property demo_data ''expiresAt'' = Some (JStr ''2025-01-01T00:00:00.000Z'')"
proof -
  have rt: "JSON_parse demo (JSON_stringify demo (JObj [(''data'', demo_data),
              (''sig'', JStr (hmac_sha256_hex demo LICENSE_SECRET (JSON_stringify demo demo_data)))]))
            = Some (JObj [(''data'', demo_data),
              (''sig'', JStr (hmac_sha256_hex demo LICENSE_SECRET (JSON_stringify demo demo_data)))])"
  proof -
    have "stringify (JObj [(''data'', demo_data), (''sig'', JStr ''ba626ca4'')])
            = base64_decode demo_key"
      by (simp add: json_eval demo_stringify) (simp add: demo_key_def b64_eval)
    then show ?thesis by (simp add: demo_def demo_mac demo_decode)
  qed
  have live: "\<not> expired_at ''expiresAt'' demo 1717200000000 (JObj demo_payload)"
    by (simp add: expired_at_def now_after_def demo_def demo_payload_def time_2025)
  have t: "toISOString demo 1704067200000 = ''2024-01-01T00:00:00.000Z''"
    by (simp add: demo_def iso_2024)
  have p: "map_of demo_payload ''email'' = Some (JStr ''adal@example.com'')"
    "map_of demo_payload ''expiresAt'' = Some (JStr ''2025-01-01T00:00:00.000Z'')"
    by (simp_all add: demo_payload_def)
  from issue_then_verify [OF demo_generate rt live]
  have "verifyLicenseKey demo LICENSE_SECRET 1717200000000 (Some demo_key) = Valid demo_data"
    "property demo_data ''createdAt'' = Some (JStr (toISOString demo 1704067200000))"
    "property demo_data ''uid'' = Some (JStr ''0123456789abcdef'')"
    "property demo_data ''email'' = map_of demo_payload ''email''"
    "property demo_data ''expiresAt'' = map_of demo_payload ''expiresAt''"
    by simp_all
  then show ?thesis by (simp only: t p simp_thms)
qed




section \<open>Verification requests and the activation quota\<close>

lemma route_verify_outcome:
  "snd (route_verify L secret now db key machine) = db \<or>
   property (body (fst (route_verify L secret now db key machine))) ''valid'' = Some (JBool True)"
  by (simp add: route_verify_def Let_def split: verification.split option.split)

lemma app_verify_outcome:
  "snd (app_verify L secret now clientIP sdb key machine os_name app_name) = sdb \<or>
   property (body (fst (app_verify L secret now clientIP sdb key machine os_name app_name)))
     ''valid'' = Some (JBool True)"
  by (simp add: app_verify_def Let_def split: verification.split option.split)

lemma route_verify_binds:
  assumes "lg_verifyLicenseKey L secret now (Some k) = Valid d"
    and "find (\<lambda>l. Some (licenseKey l) = Some k) db = Some license"
    and "isActive license" and "\<not> past now (expiresAt license)"
    and "m \<noteq> []" and "m \<notin> set (machineIds license)"
    and "activations license < maxActivations license"
  shows "route_verify L secret now db (Some k) (Some m) =
           (Response 200 (JObj [(''valid'', JBool True),
                                (''expiryDate'', date_json L (expiresAt license)),
                                (''email'', JStr (email license))]) None,
            write_back (\<lambda>l. Some (licenseKey l) = Some k)
              (license\<lparr>machineIds := machineIds license @ [m],
                       activations := activations license + 1\<rparr>) db)"
  using assms by (simp add: route_verify_def)

lemma route_verify_quota:
  assumes "lg_verifyLicenseKey L secret now (Some k) = Valid d"
    and "find (\<lambda>l. Some (licenseKey l) = Some k) db = Some license"
    and "isActive license" and "\<not> past now (expiresAt license)"
    and "m \<noteq> []" and "m \<notin> set (machineIds license)"
    and "maxActivations license \<le> activations license"
  shows "route_verify L secret now db (Some k) (Some m) =
           (Response 400 (invalid_body ''Maximum activations reached'') None, db)"
  using assms by (simp add: route_verify_def)

lemma route_verify_bound:
  assumes "lg_verifyLicenseKey L secret now (Some k) = Valid d"
    and "find (\<lambda>l. Some (licenseKey l) = Some k) db = Some license"
    and "isActive license" and "\<not> past now (expiresAt license)"
    and "m \<in> set (machineIds license)"
  shows "route_verify L secret now db (Some k) (Some m) =
           (Response 200 (JObj [(''valid'', JBool True),
                                (''expiryDate'', date_json L (expiresAt license)),
                                (''email'', JStr (email license))]) None, db)"
  using assms by (simp add: route_verify_def)

lemma app_verify_records:
  assumes "verifyLicenseKey L secret now (Some k) = Valid d" and "k \<noteq> []"
    and "find (\<lambda>l. Some (licenseKey l) = Some k) sdb = Some license"
    and "isActive license" and "\<not> past now (expiresAt license)"
  shows "app_verify L secret now clientIP sdb (Some k) machine os_name app_name =
           (Response 200
              (JObj ([(''valid'', JBool True)]
                 @ (case name license of None \<Rightarrow> [] | Some n \<Rightarrow> [(''name'', JStr n)])
                 @ [(''email'', JStr (email license)),
                    (''expiresAt'', date_json L (expiresAt license))])) None,
            write_back (\<lambda>l. Some (licenseKey l) = Some k)
              (license\<lparr>activations_log := activations_log license @
                 [\<lparr>timestamp = now, machineId = or_unknown machine, os = or_unknown os_name,
                   app = or_unknown app_name, ip = clientIP\<rparr>]\<rparr>) sdb)"
  using assms by (simp add: app_verify_def)

lemma server_verify_appends:
  "app_verify demo LICENSE_SECRET 1717200000000 ''203.0.113.7'' [server_doc\<lparr>activations_log := es\<rparr>]
      (Some demo_key) machine None None
   = (Response 200 (JObj [(''valid'', JBool True), (''name'', JStr ''Ada?''),
                          (''email'', JStr ''adal@example.com''),
                          (''expiresAt'', JStr ''2025-01-01T00:00:00.000Z'')]) None,
      [server_doc\<lparr>activations_log := es @ [logged (or_unknown machine)]\<rparr>])"
proof -
  have v: "verifyLicenseKey demo LICENSE_SECRET 1717200000000 (Some demo_key) = Valid demo_data"
    by (simp add: demo_verify)
  have d: "date_json demo (Some 1735689600000) = JStr ''2025-01-01T00:00:00.000Z''"
    by (simp add: date_json_def demo_def iso_2025)
  show ?thesis
    by (simp add: app_verify_records [OF v demo_key_nonempty server_found] server_doc_fields
        not_past_2024 d logged_def or_unknown_def)
qed

text \<open>
  C9. A verification call that answers \<open>valid: false\<close>, on the license routes or on the
  server, leaves the collection as it was.
\<close>

theorem failed_check_changes_nothing:
  "(property (body (fst (route_verify L secret now db key machine))) ''valid'' = Some (JBool False)
      \<longrightarrow> snd (route_verify L secret now db key machine) = db) \<and>
   (property (body (fst (app_verify L secret now clientIP sdb key machine os_name app_name)))
        ''valid'' = Some (JBool False)
      \<longrightarrow> snd (app_verify L secret now clientIP sdb key machine os_name app_name) = sdb)"
  using route_verify_outcome [of L secret now db key machine]
    app_verify_outcome [of L secret now clientIP sdb key machine os_name app_name]
  by auto

theorem failed_check_changes_nothing_witness:
  "property (body (fst (route_verify demo LICENSE_SECRET 1717200000000
       [gumroad_doc\<lparr>machineIds := [''m1'', ''m2'', ''m3''], activations := 3\<rparr>]
       (Some gumroad_key) (Some ''m4'')))) ''valid'' = Some (JBool False) \<and>
   snd (route_verify demo LICENSE_SECRET 1717200000000
       [gumroad_doc\<lparr>machineIds := [''m1'', ''m2'', ''m3''], activations := 3\<rparr>]
       (Some gumroad_key) (Some ''m4''))
     = [gumroad_doc\<lparr>machineIds := [''m1'', ''m2'', ''m3''], activations := 3\<rparr>] \<and>
   property (body (fst (app_verify demo LICENSE_SECRET 1717200000000 ''203.0.113.7''
       [server_doc\<lparr>isActive := False\<rparr>] (Some demo_key) (Some ''m1'') None None)))
       ''valid'' = Some (JBool False) \<and>
   snd (app_verify demo LICENSE_SECRET 1717200000000 ''203.0.113.7''
       [server_doc\<lparr>isActive := False\<rparr>] (Some demo_key) (Some ''m1'') None None)
     = [server_doc\<lparr>isActive := False\<rparr>]"
proof -
  have v: "lg_verifyLicenseKey demo LICENSE_SECRET 1717200000000 (Some gumroad_key) = Valid gumroad_data"
    by (simp add: gumroad_verify)
  have r: "property (body (fst (route_verify demo LICENSE_SECRET 1717200000000
       [gumroad_doc\<lparr>machineIds := [''m1'', ''m2'', ''m3''], activations := 3\<rparr>]
       (Some gumroad_key) (Some ''m4'')))) ''valid'' = Some (JBool False)"
    by (simp add: route_verify_quota [OF v gumroad_found] gumroad_doc_fields not_past_2024
        invalid_body_def)
  have v': "verifyLicenseKey demo LICENSE_SECRET 1717200000000 (Some demo_key) = Valid demo_data"
    by (simp add: demo_verify)
  have a: "property (body (fst (app_verify demo LICENSE_SECRET 1717200000000 ''203.0.113.7''
       [server_doc\<lparr>isActive := False\<rparr>] (Some demo_key) (Some ''m1'') None None)))
       ''valid'' = Some (JBool False)"
    by (simp add: app_verify_def v' demo_key_nonempty server_doc_fields invalid_body_def)
  show ?thesis
    using failed_check_changes_nothing [where L = demo and secret = LICENSE_SECRET
        and now = 1717200000000
        and db = "[gumroad_doc\<lparr>machineIds := [''m1'', ''m2'', ''m3''], activations := 3\<rparr>]"
        and key = "Some gumroad_key" and machine = "Some ''m4''"]
      failed_check_changes_nothing [where L = demo and secret = LICENSE_SECRET
        and now = 1717200000000 and clientIP = "''203.0.113.7''"
        and sdb = "[server_doc\<lparr>isActive := False\<rparr>]" and key = "Some demo_key"
        and machine = "Some ''m1''" and os_name = None and app_name = None] r a
    by blast
qed

text \<open>
  The counter equals the number of bound machine ids on a new license, and a verification
  request keeps it so, whatever it is answered.
\<close>

lemma new_license_in_step:
  "activations (new_license oid now key data plat sale mail expires)
     = int (length (machineIds (new_license oid now key data plat sale mail expires)))"
  by (simp add: new_license_def)

lemma route_verify_in_step:
  assumes "\<forall>l\<in>set db. activations l = int (length (machineIds l))"
  shows "\<forall>l\<in>set (snd (route_verify L secret now db key machine)).
           activations l = int (length (machineIds l))"
proof (cases "snd (route_verify L secret now db key machine) = db")
  case True
  with assms show ?thesis by simp
next
  case False
  then obtain license m where f: "find (\<lambda>l. Some (licenseKey l) = key) db = Some license"
    and w: "snd (route_verify L secret now db key machine) =
              write_back (\<lambda>l. Some (licenseKey l) = key)
                (license\<lparr>machineIds := machineIds license @ [m],
                         activations := activations license + 1\<rparr>) db"
    by (auto simp: route_verify_def Let_def
        split: verification.splits option.splits if_splits)
  from f have "license \<in> set db" by (rule find_in_set)
  with assms have "activations license = int (length (machineIds license))" by blast
  with assms set_write_back [of "\<lambda>l. Some (licenseKey l) = key"
      "license\<lparr>machineIds := machineIds license @ [m], activations := activations license + 1\<rparr>" db]
  show ?thesis unfolding w by auto
qed

text \<open>
  C1 (as amended). On the license routes, for a license whose counter \<open>activations\<close> equals
  the number of its bound machine ids, and a request that passes the signature, existence,
  active and expiry checks and carries a non-empty machine id: an id that is not bound is
  bound when the number of bound ids is below \<open>maxActivations\<close>; it is refused with
  \<open>Maximum activations reached\<close>, the collection unchanged, when the number of bound ids has
  reached \<open>maxActivations\<close>; an id that is bound succeeds and changes nothing. On the server
  there is no quota: every request that passes the checks appends one entry to the
  activation log.
\<close>

theorem activation_quota:
  assumes "lg_verifyLicenseKey L secret now (Some k) = Valid d"
    and "find (\<lambda>l. Some (licenseKey l) = Some k) db = Some license"
    and "isActive license" and "\<not> past now (expiresAt license)" and "m \<noteq> []"
    and "activations license = int (length (machineIds license))"
  shows "(m \<notin> set (machineIds license) \<and>
          int (length (machineIds license)) < maxActivations license \<longrightarrow>
            route_verify L secret now db (Some k) (Some m) =
              (Response 200 (JObj [(''valid'', JBool True),
                                   (''expiryDate'', date_json L (expiresAt license)),
                                   (''email'', JStr (email license))]) None,
               write_back (\<lambda>l. Some (licenseKey l) = Some k)
                 (license\<lparr>machineIds := machineIds license @ [m],
                          activations := activations license + 1\<rparr>) db)) \<and>
         (m \<notin> set (machineIds license) \<and>
          maxActivations license \<le> int (length (machineIds license)) \<longrightarrow>
            route_verify L secret now db (Some k) (Some m) =
              (Response 400 (invalid_body ''Maximum activations reached'') None, db)) \<and>
         (m \<in> set (machineIds license) \<longrightarrow>
            route_verify L secret now db (Some k) (Some m) =
              (Response 200 (JObj [(''valid'', JBool True),
                                   (''expiryDate'', date_json L (expiresAt license)),
                                   (''email'', JStr (email license))]) None, db)) \<and>
         (verifyLicenseKey L secret now (Some k') = Valid d' \<and> k' \<noteq> [] \<and>
          find (\<lambda>l. Some (licenseKey l) = Some k') sdb = Some entry \<and>
          isActive entry \<and> \<not> past now (expiresAt entry) \<longrightarrow>
            property (body (fst (app_verify L secret now clientIP sdb (Some k') machine os_name
                                   app_name))) ''valid'' = Some (JBool True) \<and>
            snd (app_verify L secret now clientIP sdb (Some k') machine os_name app_name) =
              write_back (\<lambda>l. Some (licenseKey l) = Some k')
                (entry\<lparr>activations_log := activations_log entry @
                   [\<lparr>timestamp = now, machineId = or_unknown machine, os = or_unknown os_name,
                     app = or_unknown app_name, ip = clientIP\<rparr>]\<rparr>) sdb)"
proof (intro conjI impI)
  assume "m \<notin> set (machineIds license) \<and>
          int (length (machineIds license)) < maxActivations license"
  with assms show "route_verify L secret now db (Some k) (Some m) =
      (Response 200 (JObj [(''valid'', JBool True),
                           (''expiryDate'', date_json L (expiresAt license)),
                           (''email'', JStr (email license))]) None,
       write_back (\<lambda>l. Some (licenseKey l) = Some k)
         (license\<lparr>machineIds := machineIds license @ [m],
                  activations := activations license + 1\<rparr>) db)"
    by (simp add: route_verify_binds)
next
  assume "m \<notin> set (machineIds license) \<and>
          maxActivations license \<le> int (length (machineIds license))"
  with assms show "route_verify L secret now db (Some k) (Some m) =
      (Response 400 (invalid_body ''Maximum activations reached'') None, db)"
    by (simp add: route_verify_quota)
next
  assume "m \<in> set (machineIds license)"
  with assms show "route_verify L secret now db (Some k) (Some m) =
      (Response 200 (JObj [(''valid'', JBool True),
                           (''expiryDate'', date_json L (expiresAt license)),
                           (''email'', JStr (email license))]) None, db)"
    by (simp add: route_verify_bound)
next
  assume a: "verifyLicenseKey L secret now (Some k') = Valid d' \<and> k' \<noteq> [] \<and>
          find (\<lambda>l. Some (licenseKey l) = Some k') sdb = Some entry \<and>
          isActive entry \<and> \<not> past now (expiresAt entry)"
  then show "property (body (fst (app_verify L secret now clientIP sdb (Some k') machine os_name
                                   app_name))) ''valid'' = Some (JBool True)"
    by (simp add: app_verify_records)
  from a show "snd (app_verify L secret now clientIP sdb (Some k') machine os_name app_name) =
              write_back (\<lambda>l. Some (licenseKey l) = Some k')
                (entry\<lparr>activations_log := activations_log entry @
                   [\<lparr>timestamp = now, machineId = or_unknown machine, os = or_unknown os_name,
                     app = or_unknown app_name, ip = clientIP\<rparr>]\<rparr>) sdb"
    by (simp add: app_verify_records)
qed

theorem server_verify_has_no_quota:
  "app_verify demo LICENSE_SECRET 1717200000000 ''203.0.113.7''
      [server_doc\<lparr>activations_log := [logged ''m1'', logged ''m2'', logged ''m3'']\<rparr>]
      (Some demo_key) (Some ''m4'') None None
   = (Response 200 (JObj [(''valid'', JBool True), (''name'', JStr ''Ada?''),
                          (''email'', JStr ''adal@example.com''),
                          (''expiresAt'', JStr ''2025-01-01T00:00:00.000Z'')]) None,
      [server_doc\<lparr>activations_log := [logged ''m1'', logged ''m2'', logged ''m3'', logged ''m4'']\<rparr>])"
  by (simp add: server_verify_appends or_unknown_def)

theorem activation_quota_witness:
  "route_verify demo LICENSE_SECRET 1717200000000
     [gumroad_doc\<lparr>machineIds := [''m1'', ''m2''], activations := 2\<rparr>] (Some gumroad_key) (Some ''m3'')
     = (Response 200 (JObj [(''valid'', JBool True),
                            (''expiryDate'', JStr ''2025-01-01T00:00:00.000Z''),
                            (''email'', JStr ''adal@example.com'')]) None,
        [gumroad_doc\<lparr>machineIds := [''m1'', ''m2'', ''m3''], activations := 3\<rparr>]) \<and>
   route_verify demo LICENSE_SECRET 1717200000000
     [gumroad_doc\<lparr>machineIds := [''m1'', ''m2'', ''m3''], activations := 3\<rparr>] (Some gumroad_key) (Some ''m4'')
     = (Response 400 (invalid_body ''Maximum activations reached'') None,
        [gumroad_doc\<lparr>machineIds := [''m1'', ''m2'', ''m3''], activations := 3\<rparr>]) \<and>
   route_verify demo LICENSE_SECRET 1717200000000
     [gumroad_doc\<lparr>machineIds := [''m1'', ''m2'', ''m3''], activations := 3\<rparr>] (Some gumroad_key) (Some ''m2'')
     = (Response 200 (JObj [(''valid'', JBool True),
                            (''expiryDate'', JStr ''2025-01-01T00:00:00.000Z''),
                            (''email'', JStr ''adal@example.com'')]) None,
        [gumroad_doc\<lparr>machineIds := [''m1'', ''m2'', ''m3''], activations := 3\<rparr>]) \<and>
   snd (app_verify demo LICENSE_SECRET 1717200000000 ''203.0.113.7'' [server_doc] (Some demo_key)
          (Some ''m1'') None None) = [server_doc\<lparr>activations_log := [logged ''m1'']\<rparr>]"
proof -
  have v: "lg_verifyLicenseKey demo LICENSE_SECRET 1717200000000 (Some gumroad_key) = Valid gumroad_data"
    by (simp add: gumroad_verify)
  have v': "verifyLicenseKey demo LICENSE_SECRET 1717200000000 (Some demo_key) = Valid demo_data"
    by (simp add: demo_verify)
  have f': "find (\<lambda>l. Some (licenseKey l) = Some demo_key) [server_doc] = Some server_doc"
    by (simp add: server_doc_fields)
  have d: "date_json demo (Some 1735689600000) = JStr ''2025-01-01T00:00:00.000Z''"
    by (simp add: date_json_def demo_def iso_2025)
  note facts = gumroad_doc_fields server_doc_fields not_past_2024 d demo_key_nonempty
  have 1: "isActive (gumroad_doc\<lparr>machineIds := ms, activations := n\<rparr>)"
    "\<not> past 1717200000000 (expiresAt (gumroad_doc\<lparr>machineIds := ms, activations := n\<rparr>))" for ms n
    by (simp_all add: facts)
  have 2: "activations (gumroad_doc\<lparr>machineIds := [''m1'', ''m2''], activations := 2\<rparr>)
             = int (length (machineIds (gumroad_doc\<lparr>machineIds := [''m1'', ''m2''], activations := 2\<rparr>)))"
    by simp
  have 3: "activations (gumroad_doc\<lparr>machineIds := [''m1'', ''m2'', ''m3''], activations := 3\<rparr>)
             = int (length (machineIds (gumroad_doc\<lparr>machineIds := [''m1'', ''m2'', ''m3''],
                                                    activations := 3\<rparr>)))"
    by simp
  note a2 = activation_quota [OF v gumroad_found [where ms = "[''m1'', ''m2'']" and n = 2] 1 _ 2]
  note a3 = activation_quota [OF v gumroad_found [where ms = "[''m1'', ''m2'', ''m3'']" and n = 3] 1 _ 3]
  show ?thesis
    using a2 [where m = "''m3''" and k' = demo_key and d' = demo_data and sdb = "[server_doc]"
            and entry = server_doc and clientIP = "''203.0.113.7''" and machine = "Some ''m1''"
            and os_name = None and app_name = None]
      a3 [where m = "''m4''"] a3 [where m = "''m2''"] v' f'
    by (simp add: facts logged_def or_unknown_def)
qed

text \<open>
  C8 (as amended). On the license routes a request with no machine id, or an empty one,
  leaves the collection as it was. On the server a request with no machine id that is
  answered \<open>valid: true\<close> appends an activation entry whose machine id is \<open>unknown\<close>.
\<close>

theorem verify_without_machine:
  "snd (route_verify L secret now db key None) = db \<and>
   snd (route_verify L secret now db key (Some [])) = db \<and>
   (property (body (fst (app_verify L secret now clientIP sdb key None os_name app_name)))
      ''valid'' = Some (JBool True) \<longrightarrow>
    (\<exists>entry. find (\<lambda>l. Some (licenseKey l) = key) sdb = Some entry \<and>
       snd (app_verify L secret now clientIP sdb key None os_name app_name) =
         write_back (\<lambda>l. Some (licenseKey l) = key)
           (entry\<lparr>activations_log := activations_log entry @
              [\<lparr>timestamp = now, machineId = ''unknown'', os = or_unknown os_name,
                app = or_unknown app_name, ip = clientIP\<rparr>]\<rparr>) sdb))"
proof (intro conjI impI)
  show "snd (route_verify L secret now db key None) = db"
    by (simp add: route_verify_def Let_def split: verification.split option.split)
  show "snd (route_verify L secret now db key (Some [])) = db"
    by (simp add: route_verify_def Let_def split: verification.split option.split)
next
  assume v: "property (body (fst (app_verify L secret now clientIP sdb key None os_name app_name)))
      ''valid'' = Some (JBool True)"
  have "property (body (fst (app_verify L secret now clientIP sdb key None os_name app_name)))
          ''valid'' = Some (JBool False) \<or>
        (\<exists>entry. find (\<lambda>l. Some (licenseKey l) = key) sdb = Some entry \<and>
           snd (app_verify L secret now clientIP sdb key None os_name app_name) =
             write_back (\<lambda>l. Some (licenseKey l) = key)
               (entry\<lparr>activations_log := activations_log entry @
                  [\<lparr>timestamp = now, machineId = ''unknown'', os = or_unknown os_name,
                    app = or_unknown app_name, ip = clientIP\<rparr>]\<rparr>) sdb)"
    by (simp add: app_verify_def invalid_body_def or_unknown_def Let_def
        split: verification.split option.split)
  with v show "\<exists>entry. find (\<lambda>l. Some (licenseKey l) = key) sdb = Some entry \<and>
       snd (app_verify L secret now clientIP sdb key None os_name app_name) =
         write_back (\<lambda>l. Some (licenseKey l) = key)
           (entry\<lparr>activations_log := activations_log entry @
              [\<lparr>timestamp = now, machineId = ''unknown'', os = or_unknown os_name,
                app = or_unknown app_name, ip = clientIP\<rparr>]\<rparr>) sdb"
    by simp
qed

theorem server_verify_without_machine_records:
  "snd (app_verify demo LICENSE_SECRET 1717200000000 ''203.0.113.7'' [server_doc]
          (Some demo_key) None None None) = [server_doc\<lparr>activations_log := [logged ''unknown'']\<rparr>] \<and>
   snd (app_verify demo LICENSE_SECRET 1717200000000 ''203.0.113.7'' [server_doc]
          (Some demo_key) None None None) \<noteq> [server_doc]"
proof -
  have "server_doc\<lparr>activations_log := [logged ''unknown'']\<rparr> \<noteq> server_doc"
    by (simp add: server_doc_def)
  then show ?thesis
    using server_verify_appends [of "[]" None] by (simp add: server_doc_log or_unknown_def)
qed

theorem verify_without_machine_witness:
  "snd (route_verify demo LICENSE_SECRET 1717200000000 [gumroad_doc] (Some gumroad_key) None)
     = [gumroad_doc] \<and>
   property (body (fst (app_verify demo LICENSE_SECRET 1717200000000 ''203.0.113.7'' [server_doc]
                          (Some demo_key) None None None))) ''valid'' = Some (JBool True) \<and>
   (\<exists>entry. find (\<lambda>l. Some (licenseKey l) = Some demo_key) [server_doc] = Some entry \<and>
      snd (app_verify demo LICENSE_SECRET 1717200000000 ''203.0.113.7'' [server_doc]
             (Some demo_key) None None None) =
        write_back (\<lambda>l. Some (licenseKey l) = Some demo_key)
          (entry\<lparr>activations_log := activations_log entry @
             [\<lparr>timestamp = 1717200000000, machineId = ''unknown'', os = or_unknown None,
               app = or_unknown None, ip = ''203.0.113.7''\<rparr>]\<rparr>) [server_doc])"
proof -
  have v: "property (body (fst (app_verify demo LICENSE_SECRET 1717200000000 ''203.0.113.7''
             [server_doc] (Some demo_key) None None None))) ''valid'' = Some (JBool True)"
    using server_verify_appends [of "[]" None] by (simp add: server_doc_log)
  show ?thesis
    using verify_without_machine [where L = demo and secret = LICENSE_SECRET
        and now = 1717200000000 and db = "[gumroad_doc]" and key = "Some gumroad_key"]
      verify_without_machine [where L = demo and secret = LICENSE_SECRET
        and now = 1717200000000 and clientIP = "''203.0.113.7''" and sdb = "[server_doc]"
        and key = "Some demo_key" and os_name = None and app_name = None] v
    by blast
qed

section \<open>Deactivation and the quota\<close>

text \<open>
  C7 (code). Deactivating a machine id that is not bound is answered with success and
  leaves \<open>machineIds\<close> as it is, but takes one off the \<open>activations\<close> counter.
\<close>

theorem deactivate_unbound_decrements:
  "route_deactivate [gumroad_doc\<lparr>machineIds := [''m1''], activations := 1\<rparr>] gumroad_key (Some ''m9'')
     = (Response 200 (JObj [(''message'', JStr ''Machine deactivated successfully'')]) None,
        [gumroad_doc\<lparr>machineIds := [''m1''], activations := 0\<rparr>])"
  by (simp add: route_deactivate_def gumroad_doc_fields)

lemma ledger_activate:
  assumes "m \<noteq> []" "m \<notin> set ms" "n < 3"
  shows "ledger_step demo LICENSE_SECRET 1717200000000 gumroad_key
           [gumroad_doc\<lparr>machineIds := ms, activations := n\<rparr>] (Activate m)
         = [gumroad_doc\<lparr>machineIds := ms @ [m], activations := n + 1\<rparr>]"
proof -
  have v: "lg_verifyLicenseKey demo LICENSE_SECRET 1717200000000 (Some gumroad_key) = Valid gumroad_data"
    by (simp add: gumroad_verify)
  show ?thesis
    using assms
    by (simp add: ledger_step_def route_verify_binds [OF v gumroad_found] gumroad_doc_fields
        not_past_2024)
qed

lemma ledger_deactivate:
  "ledger_step demo LICENSE_SECRET 1717200000000 gumroad_key
     [gumroad_doc\<lparr>machineIds := ms, activations := n\<rparr>] (Deactivate m)
   = [gumroad_doc\<lparr>machineIds := filter (\<lambda>x. x \<noteq> m) ms, activations := max 0 (n - 1)\<rparr>]"
  by (simp add: ledger_step_def route_deactivate_def gumroad_doc_fields)

text \<open>
  C2 (code). From the license the Gumroad webhook creates (\<open>maxActivations = 3\<close>): three
  activations, a deactivation of a machine id that was never bound, and a fourth activation
  leave four machine ids bound.
\<close>

theorem quota_exceeded_after_deactivate:
  "ledger_run demo LICENSE_SECRET 1717200000000 gumroad_key [gumroad_doc]
     [Activate ''m1'', Activate ''m2'', Activate ''m3'', Deactivate ''m9'', Activate ''m4'']
   = [gumroad_doc\<lparr>machineIds := [''m1'', ''m2'', ''m3'', ''m4''], activations := 3\<rparr>] \<and>
   maxActivations gumroad_doc = 3"
proof -
  have "ledger_run demo LICENSE_SECRET 1717200000000 gumroad_key
          [gumroad_doc\<lparr>machineIds := [], activations := 0\<rparr>]
          [Activate ''m1'', Activate ''m2'', Activate ''m3'', Deactivate ''m9'', Activate ''m4'']
        = [gumroad_doc\<lparr>machineIds := [''m1'', ''m2'', ''m3'', ''m4''], activations := 3\<rparr>]"
    by (simp add: ledger_run_def ledger_activate ledger_deactivate)
  then show ?thesis by (simp add: gumroad_doc_fresh gumroad_doc_fields)
qed

section \<open>Admin operations\<close>

lemma admin_set_frame:
  fixes db :: "'a license_doc_scheme list"
  shows "map (\<lambda>l. l\<lparr>isActive := x\<rparr>) (snd (app_admin_set b S a i db)) = map (\<lambda>l. l\<lparr>isActive := x\<rparr>) db"
    and "map (\<lambda>l. l\<lparr>isActive := x\<rparr>) (snd (router_admin_set b S a i db)) = map (\<lambda>l. l\<lparr>isActive := x\<rparr>) db"
  by (auto simp: app_admin_set_def router_admin_set_def findByIdAndUpdate_isActive_def
      map_write_back split: option.splits)

lemma admin_set_target:
  fixes db :: "'a license_doc_scheme list"
  assumes "find (\<lambda>l. doc_id l = i) db = Some license"
  shows "app_admin_set b S (Some S) i db =
           (Response 200 (JObj []) (Some (license\<lparr>isActive := b\<rparr>)),
            write_back (\<lambda>l. doc_id l = i) (license\<lparr>isActive := b\<rparr>) db)"
    and "router_admin_set b S (Some S) i db =
           (Response 200 (JObj []) (Some (license\<lparr>isActive := b\<rparr>)),
            write_back (\<lambda>l. doc_id l = i) (license\<lparr>isActive := b\<rparr>) db)"
  using assms
  by (simp_all add: app_admin_set_def router_admin_set_def findByIdAndUpdate_isActive_def)

text \<open>
  C10. The admin activate and deactivate operations, of the server and of the admin routes,
  leave every document as it was except for \<open>isActive\<close>; they set \<open>isActive\<close> of the
  document with the given id; and disabling and then enabling a license that was active gives
  back the collection unchanged.
\<close>

theorem admin_changes_only_isActive:
  fixes db :: "'a license_doc_scheme list"
  shows "map (\<lambda>l. l\<lparr>isActive := x\<rparr>) (snd (app_admin_activate S a i db))
           = map (\<lambda>l. l\<lparr>isActive := x\<rparr>) db \<and>
         map (\<lambda>l. l\<lparr>isActive := x\<rparr>) (snd (app_admin_deactivate S a i db))
           = map (\<lambda>l. l\<lparr>isActive := x\<rparr>) db \<and>
         map (\<lambda>l. l\<lparr>isActive := x\<rparr>) (snd (router_admin_activate S a i db))
           = map (\<lambda>l. l\<lparr>isActive := x\<rparr>) db \<and>
         map (\<lambda>l. l\<lparr>isActive := x\<rparr>) (snd (router_admin_deactivate S a i db))
           = map (\<lambda>l. l\<lparr>isActive := x\<rparr>) db \<and>
         (find (\<lambda>l. doc_id l = i) db = Some license \<longrightarrow>
            snd (app_admin_deactivate S (Some S) i db)
              = write_back (\<lambda>l. doc_id l = i) (license\<lparr>isActive := False\<rparr>) db \<and>
            snd (router_admin_deactivate S (Some S) i db)
              = write_back (\<lambda>l. doc_id l = i) (license\<lparr>isActive := False\<rparr>) db \<and>
            snd (app_admin_activate S (Some S) i db)
              = write_back (\<lambda>l. doc_id l = i) (license\<lparr>isActive := True\<rparr>) db \<and>
            snd (router_admin_activate S (Some S) i db)
              = write_back (\<lambda>l. doc_id l = i) (license\<lparr>isActive := True\<rparr>) db) \<and>
         (find (\<lambda>l. doc_id l = i) db = Some license \<and> isActive license \<longrightarrow>
            snd (app_admin_activate S (Some S) i (snd (app_admin_deactivate S (Some S) i db))) = db \<and>
            snd (router_admin_activate S (Some S) i (snd (router_admin_deactivate S (Some S) i db))) = db)"
proof -
  have cycle: "write_back (\<lambda>l. doc_id l = i) (license\<lparr>isActive := True\<rparr>)
                 (write_back (\<lambda>l. doc_id l = i) (license\<lparr>isActive := False\<rparr>) db) = db"
    if f: "find (\<lambda>l. doc_id l = i) db = Some license" and a: "isActive license"
  proof -
    have i: "doc_id license = i" using f by (rule find_doc_id)
    have "license\<lparr>isActive := True\<rparr> = license" using a by simp
    then show ?thesis using f i by (simp add: write_back_twice write_back_same)
  qed
  have after: "find (\<lambda>l. doc_id l = i) (write_back (\<lambda>l. doc_id l = i) (license\<lparr>isActive := False\<rparr>) db)
                 = Some (license\<lparr>isActive := False\<rparr>)"
    if f: "find (\<lambda>l. doc_id l = i) db = Some license"
    using f find_doc_id [OF f] by (simp add: find_write_back)
  show ?thesis
    unfolding app_admin_activate_def app_admin_deactivate_def router_admin_activate_def
      router_admin_deactivate_def
    by (auto simp: admin_set_frame admin_set_target after cycle)
qed

theorem admin_changes_only_isActive_witness:
  "find (\<lambda>l. doc_id l = ''65a1f0c2e4b0a1b2c3d4e5f6'') [server_doc] = Some server_doc \<and>
   isActive server_doc \<and>
   snd (app_admin_deactivate ''s3cret'' (Some ''s3cret'') ''65a1f0c2e4b0a1b2c3d4e5f6'' [server_doc])
     = [server_doc\<lparr>isActive := False\<rparr>] \<and>
   snd (router_admin_deactivate ''s3cret'' (Some ''s3cret'') ''65a1f0c2e4b0a1b2c3d4e5f6'' [server_doc])
     = [server_doc\<lparr>isActive := False\<rparr>] \<and>
   snd (app_admin_activate ''s3cret'' (Some ''s3cret'') ''65a1f0c2e4b0a1b2c3d4e5f6''
          (snd (app_admin_deactivate ''s3cret'' (Some ''s3cret'') ''65a1f0c2e4b0a1b2c3d4e5f6''
                  [server_doc]))) = [server_doc] \<and>
   snd (router_admin_activate ''s3cret'' (Some ''s3cret'') ''65a1f0c2e4b0a1b2c3d4e5f6''
          (snd (router_admin_deactivate ''s3cret'' (Some ''s3cret'') ''65a1f0c2e4b0a1b2c3d4e5f6''
                  [server_doc]))) = [server_doc]"
proof -
  have f: "find (\<lambda>l. doc_id l = ''65a1f0c2e4b0a1b2c3d4e5f6'') [server_doc] = Some server_doc"
    and a: "isActive server_doc" and d: "doc_id server_doc = ''65a1f0c2e4b0a1b2c3d4e5f6''"
    by (simp_all add: server_doc_def)
  have w: "write_back (\<lambda>l. doc_id l = ''65a1f0c2e4b0a1b2c3d4e5f6'') y [server_doc] = [y]" for y
    by (simp add: d)
  note T = admin_changes_only_isActive [where i = "''65a1f0c2e4b0a1b2c3d4e5f6''"
      and db = "[server_doc]" and license = server_doc and S = "''s3cret''"
      and a = "Some ''s3cret''" and x = True]
  from T f have
    "snd (app_admin_deactivate ''s3cret'' (Some ''s3cret'') ''65a1f0c2e4b0a1b2c3d4e5f6'' [server_doc])
       = write_back (\<lambda>l. doc_id l = ''65a1f0c2e4b0a1b2c3d4e5f6'') (server_doc\<lparr>isActive := False\<rparr>) [server_doc]"
    "snd (router_admin_deactivate ''s3cret'' (Some ''s3cret'') ''65a1f0c2e4b0a1b2c3d4e5f6'' [server_doc])
       = write_back (\<lambda>l. doc_id l = ''65a1f0c2e4b0a1b2c3d4e5f6'') (server_doc\<lparr>isActive := False\<rparr>) [server_doc]"
    by blast+
  moreover from T f a have
    "snd (app_admin_activate ''s3cret'' (Some ''s3cret'') ''65a1f0c2e4b0a1b2c3d4e5f6''
          (snd (app_admin_deactivate ''s3cret'' (Some ''s3cret'') ''65a1f0c2e4b0a1b2c3d4e5f6''
                  [server_doc]))) = [server_doc]"
    "snd (router_admin_activate ''s3cret'' (Some ''s3cret'') ''65a1f0c2e4b0a1b2c3d4e5f6''
          (snd (router_admin_deactivate ''s3cret'' (Some ''s3cret'') ''65a1f0c2e4b0a1b2c3d4e5f6''
                  [server_doc]))) = [server_doc]"
    by blast+
  ultimately show ?thesis using f a by (simp only: w simp_thms)
qed

section \<open>Webhook redelivery\<close>











text \<open>
  The Stripe route creates a license only from an event that \<open>constructEvent\<close> returns: a
  delivery it rejects is answered 400 and changes nothing. The application mounts the
  webhook router behind \<open>express.json()\<close>, so that \<open>constructEvent\<close> is handed the parsed
  body and not the raw one whose signature it checks.
\<close>

lemma stripe_webhook_rejected:
  "stripe_webhook L secret now uniqueId oid db None = (Response 400 (JStr ''Webhook Error'') None, db)"
  by (simp add: stripe_webhook_def)

end
